theory Spec2Isabelle
  imports Main "HOL-Library.Word"
begin

section \<open>JavaScript strings\<close>

text \<open>
  The suite works on canonical N-Quads statements, one statement per string. The string
  methods it calls are modelled on \<^typ>\<open>string\<close> with the behaviour ECMAScript gives them,
  a character standing for one code unit.
\<close>

text \<open>\<^verbatim>\<open>s.split(sep)\<close> for a one-character separator: never empty, \<^verbatim>\<open>"".split(" ")\<close> is \<^verbatim>\<open>[""]\<close>.\<close>

fun split_js :: "char \<Rightarrow> string \<Rightarrow> string list" where
  "split_js sep [] = [[]]"
| "split_js sep (c # cs) =
     (if c = sep then [] # split_js sep cs
      else (case split_js sep cs of [] \<Rightarrow> [[c]] | t # ts \<Rightarrow> (c # t) # ts))"

text \<open>\<^verbatim>\<open>xs.join(sep)\<close>.\<close>

fun join_js :: "string \<Rightarrow> string list \<Rightarrow> string" where
  "join_js sep [] = []"
| "join_js sep [x] = x"
| "join_js sep (x # y # ys) = x @ sep @ join_js sep (y # ys)"

text \<open>\<^verbatim>\<open>s.startsWith(p)\<close>.\<close>

definition startsWith :: "string \<Rightarrow> string \<Rightarrow> bool" where
  "startsWith s p = (take (length p) s = p)"

text \<open>The position of the first occurrence of \<open>pat\<close> in \<open>s\<close>, as \<^verbatim>\<open>replace\<close> looks it up.\<close>

fun indexOf_str :: "string \<Rightarrow> string \<Rightarrow> nat option" where
  "indexOf_str [] pat = (if pat = [] then Some 0 else None)"
| "indexOf_str (c # cs) pat =
     (if startsWith (c # cs) pat then Some 0 else map_option Suc (indexOf_str cs pat))"

text \<open>
  ECMAScript's GetSubstitution for a string pattern (no capture groups): in the replacement
  text \<^verbatim>\<open>$$\<close> stands for a dollar sign, \<^verbatim>\<open>$&\<close> for the matched text, \<^verbatim>\<open>$`\<close> for the text before
  the match and \<^verbatim>\<open>$'\<close> for the text after it; any other character, a dollar sign before a
  digit included, stands for itself.
\<close>

fun getSubstitution :: "string \<Rightarrow> string \<Rightarrow> string \<Rightarrow> string \<Rightarrow> string" where
  "getSubstitution matched pre post [] = []"
| "getSubstitution matched pre post [c] = [c]"
| "getSubstitution matched pre post (c # d # r) =
     (if c = CHR ''$'' \<and> d = CHR ''$'' then CHR ''$'' # getSubstitution matched pre post r
      else if c = CHR ''$'' \<and> d = CHR ''&'' then matched @ getSubstitution matched pre post r
      else if c = CHR ''$'' \<and> d = CHR 0x60 then pre @ getSubstitution matched pre post r
      else if c = CHR ''$'' \<and> d = CHR 0x27 then post @ getSubstitution matched pre post r
      else c # getSubstitution matched pre post (d # r))"

text \<open>\<^verbatim>\<open>s.replace(pat, repl)\<close> with a string pattern: the first occurrence only.\<close>

definition replace_js :: "string \<Rightarrow> string \<Rightarrow> string \<Rightarrow> string" where
  "replace_js s pat repl =
     (case indexOf_str s pat of
        None \<Rightarrow> s
      | Some p \<Rightarrow>
          (let pre = take p s; post = drop (p + length pat) s
           in pre @ getSubstitution pat pre post repl @ post))"

text \<open>\<^verbatim>\<open>s.substring(start, stop)\<close>: both ends are clamped to the string and swapped when
  out of order.\<close>

definition substring_js :: "string \<Rightarrow> int \<Rightarrow> int \<Rightarrow> string" where
  "substring_js s start stop =
     (let len = int (length s);
          a = min (max start 0) len;
          b = min (max stop 0) len;
          lo = min a b;
          hi = max a b
      in take (nat (hi - lo)) (drop (nat lo) s))"

section \<open>Blank node identifiers\<close>

text \<open>\<^verbatim>\<open>element.split(" ")[0]\<close>: the text before the first space, the subject of the statement.\<close>

definition nodeIdentifier :: "string \<Rightarrow> string" where
  "nodeIdentifier element = (case split_js CHR '' '' element of [] \<Rightarrow> [] | t # _ \<Rightarrow> t)"

text \<open>
  \<^verbatim>\<open>deriveProof\<close>, lines 87 to 98: a statement whose subject is a canonical blank node label gets
  the label wrapped into a node identifier, \<^verbatim>\<open>_:c14n0\<close> becoming \<^verbatim>\<open><urn:bnid:_:c14n0>\<close>.
\<close>

definition transformInputDocumentStatement :: "string \<Rightarrow> string" where
  "transformInputDocumentStatement element =
     (let n = nodeIdentifier element
      in if startsWith n ''_:c14n''
         then replace_js element n (''<urn:bnid:'' @ n @ ''>'')
         else element)"

definition transformedInputDocumentStatements :: "string list \<Rightarrow> string list" where
  "transformedInputDocumentStatements documentStatements =
     map transformInputDocumentStatement documentStatements"

text \<open>
  \<^verbatim>\<open>verifyProof\<close>, lines 205 to 217: a subject that starts with the placeholder prefix is
  replaced by what stands between the prefix and its last character.
\<close>

definition transformDocumentStatement :: "string \<Rightarrow> string" where
  "transformDocumentStatement element =
     (let n = nodeIdentifier element
      in if startsWith n ''<urn:bnid:_:c14n''
         then replace_js element n
                (substring_js n (int (length ''<urn:bnid:'')) (int (length n) - 1))
         else element)"

definition transformedDocumentStatements :: "string list \<Rightarrow> string list" where
  "transformedDocumentStatements documentStatements =
     map transformDocumentStatement documentStatements"

section \<open>JSON values and JavaScript objects\<close>

text \<open>
  Documents, proofs and frames are JSON values. An object is a finite map from property
  names to values; the order of its properties plays no part in what the suite computes.
  Numbers are the integers that occur in proofs (statement counts and indices).
\<close>

datatype json =
    JUndefined
  | JNull
  | JBool bool
  | JNum int
  | JStr string
  | JArr "json list"
  | JObj "string \<Rightarrow> json option"

type_synonym obj = "string \<Rightarrow> json option"

text \<open>\<^verbatim>\<open>o.k\<close> on an object: \<^verbatim>\<open>undefined\<close> when the property is absent.\<close>

definition get :: "obj \<Rightarrow> string \<Rightarrow> json" where
  "get m k = (case m k of None \<Rightarrow> JUndefined | Some v \<Rightarrow> v)"

text \<open>
  \<^verbatim>\<open>v.k\<close> for a named property \<open>k\<close> (\<^verbatim>\<open>id\<close>, \<^verbatim>\<open>revoked\<close>) on a value that is neither
  \<^verbatim>\<open>null\<close> nor \<^verbatim>\<open>undefined\<close>: booleans, numbers, strings and arrays have no such property.
\<close>

definition property :: "json \<Rightarrow> string \<Rightarrow> json" where
  "property v k = (case v of JObj m \<Rightarrow> get m k | _ \<Rightarrow> JUndefined)"

text \<open>\<^verbatim>\<open>v === undefined\<close>, \<^verbatim>\<open>v === null\<close> and \<^verbatim>\<open>v === "s"\<close> for a string literal.\<close>

definition isUndefined :: "json \<Rightarrow> bool" where
  "isUndefined v = (case v of JUndefined \<Rightarrow> True | _ \<Rightarrow> False)"

definition isNull :: "json \<Rightarrow> bool" where
  "isNull v = (case v of JNull \<Rightarrow> True | _ \<Rightarrow> False)"

definition isString :: "json \<Rightarrow> string \<Rightarrow> bool" where
  "isString v s = (case v of JStr t \<Rightarrow> t = s | _ \<Rightarrow> False)"

text \<open>\<^verbatim>\<open>!v\<close>.\<close>

definition falsy :: "json \<Rightarrow> bool" where
  "falsy v =
     (case v of
        JUndefined \<Rightarrow> True
      | JNull \<Rightarrow> True
      | JBool b \<Rightarrow> \<not> b
      | JNum n \<Rightarrow> n = 0
      | JStr s \<Rightarrow> s = []
      | JArr _ \<Rightarrow> False
      | JObj _ \<Rightarrow> False)"

text \<open>\<^verbatim>\<open>typeof v === "object"\<close>, which holds of \<^verbatim>\<open>null\<close> too.\<close>

definition typeof_object :: "json \<Rightarrow> bool" where
  "typeof_object v =
     (case v of JNull \<Rightarrow> True | JArr _ \<Rightarrow> True | JObj _ \<Rightarrow> True | _ \<Rightarrow> False)"

text \<open>
  The index a property name stands for in an array or a string: a canonical decimal
  numeral, with no leading zero.
\<close>

definition arrayIndex :: "string \<Rightarrow> nat option" where
  "arrayIndex k =
     (if k = [] then None
      else if \<not> list_all (\<lambda>c. c \<in> set ''0123456789'') k then None
      else if take 1 k = ''0'' \<and> k \<noteq> ''0'' then None
      else Some (foldl (\<lambda>a c. 10 * a + (of_char c - 48)) 0 k))"

text \<open>
  \<^verbatim>\<open>{...v}\<close>: the own enumerable properties of \<open>v\<close>. An array and a string spread into
  their indexed elements; \<^verbatim>\<open>undefined\<close>, \<^verbatim>\<open>null\<close>, booleans and numbers spread into nothing.
\<close>

definition spread :: "json \<Rightarrow> obj" where
  "spread v =
     (case v of
        JObj m \<Rightarrow> m
      | JArr xs \<Rightarrow>
          (\<lambda>k. case arrayIndex k of
                 None \<Rightarrow> None
               | Some i \<Rightarrow> if i < length xs then Some (xs ! i) else None)
      | JStr s \<Rightarrow>
          (\<lambda>k. case arrayIndex k of
                 None \<Rightarrow> None
               | Some i \<Rightarrow> if i < length s then Some (JStr [s ! i]) else None)
      | _ \<Rightarrow> Map.empty)"

text \<open>\<^verbatim>\<open>xs.indexOf(key)\<close> on an array: the first position of \<open>key\<close>, or \<open>-1\<close>.\<close>

fun indexOf :: "'a list \<Rightarrow> 'a \<Rightarrow> int" where
  "indexOf [] key = - 1"
| "indexOf (x # xs) key =
     (if x = key then 0
      else (let i = indexOf xs key in if i < 0 then - 1 else i + 1))"

section \<open>Bytes and base64\<close>

type_synonym bytes = "8 word list"

definition base64Alphabet :: string where
  "base64Alphabet = ''ABCDEFGHIJKLMNOPQRSTUVWXYZabcdefghijklmnopqrstuvwxyz0123456789+/''"

definition base64Digit :: "nat \<Rightarrow> char" where
  "base64Digit i = base64Alphabet ! (i mod 64)"

text \<open>\<^verbatim>\<open>Buffer.from(bs).toString("base64")\<close>: three bytes give four digits, with padding.\<close>

fun toBase64 :: "bytes \<Rightarrow> string" where
  "toBase64 [] = []"
| "toBase64 [a] =
     [base64Digit (unat a div 4), base64Digit (unat a mod 4 * 16), CHR ''='', CHR ''='']"
| "toBase64 [a, b] =
     [base64Digit (unat a div 4), base64Digit (unat a mod 4 * 16 + unat b div 16),
      base64Digit (unat b mod 16 * 4), CHR ''='']"
| "toBase64 (a # b # c # r) =
     [base64Digit (unat a div 4), base64Digit (unat a mod 4 * 16 + unat b div 16),
      base64Digit (unat b mod 16 * 4 + unat c div 64), base64Digit (unat c mod 64)]
     @ toBase64 r"

section \<open>Errors, options and collaborators\<close>

text \<open>
  What the suite throws, and what its collaborators throw:
  \<^item> \<open>TypeMismatch\<close>: the \<^verbatim>\<open>TypeError\<close> "proof document proof incompatible, expected proof
    type of BbsBlsSignature2020";
  \<^item> \<open>Reconciliation\<close>: the \<^verbatim>\<open>Error\<close> "Some statements in the reveal document not found in
    original proof";
  \<^item> \<open>MissingReference\<close>: the \<^verbatim>\<open>Error\<close> "No "verificationMethod" found in proof.";
  \<^item> \<open>NullReference\<close>: the \<^verbatim>\<open>TypeError\<close> of reading \<^verbatim>\<open>id\<close> of \<^verbatim>\<open>null\<close>;
  \<^item> \<open>NotFound v\<close>: the \<^verbatim>\<open>Error\<close> "Verification method v not found.";
  \<^item> \<open>Revoked\<close>: the \<^verbatim>\<open>Error\<close> "The verification method has been revoked.";
  \<^item> \<open>External v\<close>: any value thrown by a collaborator (canonicalization, framing, the
    signature primitive, the document loader, the purpose validator) or handed over by the
    purpose validator as its error.
\<close>

datatype thrown =
    TypeMismatch
  | Reconciliation
  | MissingReference
  | NullReference
  | NotFound json
  | Revoked
  | External json

type_synonym documentLoader = "string \<Rightarrow> thrown + json"

type_synonym expansionMap = "(json \<Rightarrow> json) option"

record Bls12381G2KeyPair =
  publicKeyBuffer :: bytes

text \<open>An instance of the class \<^verbatim>\<open>BbsBlsSignatureProof2020\<close>.\<close>

record suite =
  suite_type :: string
  proofSignatureKey :: string
  key :: Bls12381G2KeyPair
  useNativeCanonize :: "bool option"

text \<open>The constructor, lines 32 to 37.\<close>

definition BbsBlsSignatureProof2020 :: "bool option \<Rightarrow> Bls12381G2KeyPair \<Rightarrow> suite" where
  "BbsBlsSignatureProof2020 useNative k =
     \<lparr>suite_type = ''BbsBlsSignatureProof2020'', proofSignatureKey = ''signature'',
      key = k, useNativeCanonize = useNative\<rparr>"

text \<open>\<^verbatim>\<open>VerifyProofResult\<close>: \<^verbatim>\<open>{ verified, error }\<close>, the error absent on success.\<close>

record VerifyProofResult =
  verified :: bool
  error :: "thrown option"

text \<open>What the purpose validator resolves with: \<^verbatim>\<open>{ valid, error }\<close>.\<close>

datatype PurposeResult = PurposeResult (valid: bool) (purpose_error: thrown)

record ProofOptions =
  document :: json
  proof' :: obj
  documentLoader :: documentLoader
  expansionMap :: expansionMap

record DeriveProofOptions = ProofOptions +
  revealDocument :: json
  compactProof :: "bool option"
  nonce :: "string option"

text \<open>
  \<^verbatim>\<open>purpose.validate(proof, { document, suite, verificationMethod, documentLoader,
  expansionMap })\<close>, the arguments in this order.
\<close>

record VerifyProofOptions = ProofOptions +
  purpose :: "obj \<Rightarrow> json \<Rightarrow> suite \<Rightarrow> json \<Rightarrow> documentLoader \<Rightarrow> expansionMap
                \<Rightarrow> thrown + PurposeResult"

text \<open>
  The collaborators of the suite, none of them part of it:
  \<^item> \<open>jsonld_canonize input algorithm format documentLoader expansionMap skipExpansion
    useNative\<close>, \<open>jsonld_fromRDF\<close> and \<open>jsonld_frame input frame documentLoader
    compactToRelative expandContext\<close> of the JSON-LD library, an option that is not passed
    being \<open>None\<close>;
  \<^item> \<open>SECURITY_CONTEXT_URL\<close>, the constant of the signatures library;
  \<^item> \<open>blsCreateProof signature publicKey messages nonce revealed\<close> and \<open>blsVerifyProof proof
    publicKey messageCount messages nonce revealed\<close>, the signature primitive;
  \<^item> \<open>createVerifyDocumentData2020 key document documentLoader expansionMap compactProof\<close>
    and \<open>createVerifyProofData2020\<close>, the two methods of the signing suite
    \<^verbatim>\<open>BbsBlsSignature2020\<close> built from the key, which \<^verbatim>\<open>deriveProof\<close> calls;
  \<^item> \<open>bufferFromBase64\<close>, the constructor \<^verbatim>\<open>new Buffer(v, "base64")\<close>;
  \<^item> \<open>randomSource\<close>, the bytes the system's random source hands out, in order.
\<close>

record env =
  jsonld_canonize :: "json \<Rightarrow> string \<Rightarrow> string \<Rightarrow> documentLoader \<Rightarrow> expansionMap
                        \<Rightarrow> bool option \<Rightarrow> bool option \<Rightarrow> thrown + string"
  jsonld_fromRDF :: "string \<Rightarrow> thrown + json"
  jsonld_frame :: "json \<Rightarrow> json \<Rightarrow> documentLoader \<Rightarrow> bool option \<Rightarrow> string option
                     \<Rightarrow> thrown + json"
  SECURITY_CONTEXT_URL :: string
  blsCreateProof :: "bytes \<Rightarrow> bytes \<Rightarrow> string list \<Rightarrow> string \<Rightarrow> int list \<Rightarrow> thrown + bytes"
  blsVerifyProof :: "bytes \<Rightarrow> bytes \<Rightarrow> json \<Rightarrow> string list \<Rightarrow> json \<Rightarrow> json
                       \<Rightarrow> thrown + VerifyProofResult"
  createVerifyDocumentData2020 :: "Bls12381G2KeyPair \<Rightarrow> json \<Rightarrow> documentLoader \<Rightarrow> expansionMap
                        \<Rightarrow> bool option \<Rightarrow> thrown + string list"
  createVerifyProofData2020 :: "Bls12381G2KeyPair \<Rightarrow> obj \<Rightarrow> documentLoader \<Rightarrow> expansionMap
                        \<Rightarrow> bool option \<Rightarrow> thrown + string list"
  bufferFromBase64 :: "json \<Rightarrow> thrown + bytes"
  randomSource :: "nat \<Rightarrow> 8 word"

text \<open>\<^verbatim>\<open>randomBytes(n)\<close>: the next \<open>n\<close> bytes of the random source.\<close>

definition randomBytes :: "env \<Rightarrow> nat \<Rightarrow> bytes" where
  "randomBytes E n = map (randomSource E) [0..<n]"

section \<open>Canonicalization\<close>

text \<open>\<^verbatim>\<open>canonize(input, { documentLoader, expansionMap, skipExpansion })\<close>, lines 260 to 270.\<close>

definition canonize ::
  "suite \<Rightarrow> env \<Rightarrow> json \<Rightarrow> documentLoader \<Rightarrow> expansionMap \<Rightarrow> bool option \<Rightarrow> thrown + string"
where
  "canonize this E input loader emap skipExpansion =
     jsonld_canonize E input ''URDNA2015'' ''application/n-quads'' loader emap skipExpansion
       (useNativeCanonize this)"

text \<open>
  \<^verbatim>\<open>canonizeProof\<close>, lines 272 to 286: a copy of the argument without the four properties a
  derived proof adds, canonicalized with \<^verbatim>\<open>skipExpansion: false\<close>.
\<close>

definition canonizeProof ::
  "suite \<Rightarrow> env \<Rightarrow> json \<Rightarrow> documentLoader \<Rightarrow> expansionMap \<Rightarrow> thrown + string"
where
  "canonizeProof this E proofArg loader emap =
     (let p0 = spread proofArg;
          p1 = p0(''totalStatements'' := None);
          p2 = p1(''revealStatements'' := None);
          p3 = p2(''nonce'' := None);
          p4 = p3(''proof'' := None)
      in canonize this E (JObj p4) loader emap (Some False))"

text \<open>\<^verbatim>\<open>c14n.split("\n").filter(_ => _.length > 0)\<close>.\<close>

definition statementsOf :: "string \<Rightarrow> string list" where
  "statementsOf c14n = filter (\<lambda>s. length s > 0) (split_js (CHR 0x0A) c14n)"

text \<open>\<^verbatim>\<open>createVerifyProofData\<close>, lines 315 to 325.\<close>

definition createVerifyProofData ::
  "suite \<Rightarrow> env \<Rightarrow> json \<Rightarrow> documentLoader \<Rightarrow> expansionMap \<Rightarrow> thrown + string list"
where
  "createVerifyProofData this E proofArg loader emap =
     (case canonizeProof this E proofArg loader emap of
        Inl e \<Rightarrow> Inl e
      | Inr c14nProofOptions \<Rightarrow> Inr (statementsOf c14nProofOptions))"

text \<open>\<^verbatim>\<open>createVerifyDocumentData\<close>, lines 333 to 343: no \<^verbatim>\<open>skipExpansion\<close> is passed.\<close>

definition createVerifyDocumentData ::
  "suite \<Rightarrow> env \<Rightarrow> json \<Rightarrow> documentLoader \<Rightarrow> expansionMap \<Rightarrow> thrown + string list"
where
  "createVerifyDocumentData this E doc loader emap =
     (case canonize this E doc loader emap None of
        Inl e \<Rightarrow> Inl e
      | Inr c14nDocument \<Rightarrow> Inr (statementsOf c14nDocument))"

text \<open>\<^verbatim>\<open>createVerifyData\<close>, lines 293 to 307.\<close>

definition createVerifyData ::
  "suite \<Rightarrow> env \<Rightarrow> ('a ProofOptions_scheme) \<Rightarrow> thrown + string list"
where
  "createVerifyData this E options =
     (case createVerifyProofData this E (JObj (proof' options)) (documentLoader options)
             (expansionMap options) of
        Inl e \<Rightarrow> Inl e
      | Inr proofStatements \<Rightarrow>
     (case createVerifyDocumentData this E (document options) (documentLoader options)
             (expansionMap options) of
        Inl e \<Rightarrow> Inl e
      | Inr documentStatements \<Rightarrow> Inr (proofStatements @ documentStatements)))"

section \<open>Resolving the verification method\<close>

text \<open>
  Lines 352 to 356 of \<^verbatim>\<open>getVerificationMethod\<close>: the reference a proof names. An embedded
  method (anything whose \<^verbatim>\<open>typeof\<close> is \<^verbatim>\<open>"object"\<close>) stands for its \<^verbatim>\<open>id\<close>, and reading the
  \<^verbatim>\<open>id\<close> of \<^verbatim>\<open>null\<close> throws.
\<close>

definition verificationMethodReference :: "obj \<Rightarrow> thrown + json" where
  "verificationMethodReference proofArg =
     (let verificationMethod = get proofArg ''verificationMethod''
      in if typeof_object verificationMethod
         then (if isNull verificationMethod then Inl NullReference
               else Inr (property verificationMethod ''id''))
         else Inr verificationMethod)"

text \<open>
  \<^verbatim>\<open>getVerificationMethod\<close>, lines 351 to 386. A falsy reference is missing; the reference is
  framed with the security context, always embedding; a falsy result is not found; a
  result with a \<^verbatim>\<open>revoked\<close> property other than \<^verbatim>\<open>undefined\<close> is revoked.
\<close>

definition getVerificationMethod ::
  "suite \<Rightarrow> env \<Rightarrow> obj \<Rightarrow> documentLoader \<Rightarrow> thrown + json"
where
  "getVerificationMethod this E proofArg loader =
     (case verificationMethodReference proofArg of
        Inl e \<Rightarrow> Inl e
      | Inr verificationMethod \<Rightarrow>
          if falsy verificationMethod then Inl MissingReference
          else
            (case jsonld_frame E verificationMethod
                    (JObj [''@context'' \<mapsto> JStr (SECURITY_CONTEXT_URL E),
                           ''@embed'' \<mapsto> JStr ''@always'',
                           ''id'' \<mapsto> verificationMethod])
                    loader (Some False) (Some (SECURITY_CONTEXT_URL E)) of
               Inl e \<Rightarrow> Inl e
             | Inr result \<Rightarrow>
                 if falsy result then Inl (NotFound verificationMethod)
                 else if \<not> isUndefined (property result ''revoked'') then Inl Revoked
                 else Inr result))"

section \<open>Deriving a proof\<close>

text \<open>
  Lines 123 to 145: the indices of the proof statements, then for each statement of the
  reveal document its position among the transformed document statements, offset by the
  number of proof statements; the comparison of lengths that follows; the concatenation.
\<close>

definition revealIndicies :: "string list \<Rightarrow> string list \<Rightarrow> string list \<Rightarrow> thrown + int list" where
  "revealIndicies proofStatements transformedInput revealDocumentStatements =
     (let numberOfProofStatements = length proofStatements;
          proofRevealIndicies = map int [0..<numberOfProofStatements];
          documentRevealIndicies =
            map (\<lambda>key. indexOf transformedInput key + int numberOfProofStatements)
              revealDocumentStatements
      in if length documentRevealIndicies \<noteq> length revealDocumentStatements
         then Inl Reconciliation
         else Inr (proofRevealIndicies @ documentRevealIndicies))"

text \<open>Lines 147 to 150: a nonce is made when \<^verbatim>\<open>!nonce\<close> holds.\<close>

definition resolveNonce :: "env \<Rightarrow> string option \<Rightarrow> string" where
  "resolveNonce E suppliedNonce =
     (case suppliedNonce of
        None \<Rightarrow> toBase64 (randomBytes E 50)
      | Some n \<Rightarrow> if n = [] then toBase64 (randomBytes E 50) else n)"

text \<open>
  Lines 164 to 179: the input proof without \<^verbatim>\<open>signature\<close> and \<^verbatim>\<open>type\<close>, under the type of
  this suite, with the four properties of a derived proof, set into the reveal document.
\<close>

definition derivedDocument ::
  "suite \<Rightarrow> json \<Rightarrow> obj \<Rightarrow> bytes \<Rightarrow> int list \<Rightarrow> nat \<Rightarrow> string \<Rightarrow> obj"
where
  "derivedDocument this revealDocumentResult proofArg outputProof indicies totalCount nonceUsed =
     (let inputProof = (proofArg(''signature'' := None))(''type'' := None)
      in (spread revealDocumentResult)
           (''proof'' \<mapsto>
              JObj (([''type'' \<mapsto> JStr (suite_type this)] ++ inputProof)
                      (''proof'' \<mapsto> JStr (toBase64 outputProof),
                       ''revealStatements'' \<mapsto> JArr (map JNum indicies),
                       ''totalStatements'' \<mapsto> JNum (int totalCount),
                       ''nonce'' \<mapsto> JStr nonceUsed))))"

text \<open>\<^verbatim>\<open>deriveProof\<close>, lines 46 to 180.\<close>

definition deriveProof :: "suite \<Rightarrow> env \<Rightarrow> DeriveProofOptions \<Rightarrow> thrown + obj" where
  "deriveProof this E options =
     (if \<not> isString (get (proof' options) ''type'') ''BbsBlsSignature2020'' then Inl TypeMismatch
      else
     (case bufferFromBase64 E (get (proof' options) ''signature'') of
        Inl e \<Rightarrow> Inl e
      | Inr signature \<Rightarrow>
     (case createVerifyDocumentData2020 E (key this) (document options)
             (documentLoader options) (expansionMap options) (compactProof options) of
        Inl e \<Rightarrow> Inl e
      | Inr documentStatements \<Rightarrow>
     (case createVerifyProofData2020 E (key this) (proof' options)
             (documentLoader options) (expansionMap options) (compactProof options) of
        Inl e \<Rightarrow> Inl e
      | Inr proofStatements \<Rightarrow>
     (case jsonld_fromRDF E
             (join_js [CHR 0x0A] (transformedInputDocumentStatements documentStatements)) of
        Inl e \<Rightarrow> Inl e
      | Inr compactInputProofDocument \<Rightarrow>
     (case jsonld_frame E compactInputProofDocument (revealDocument options)
             (documentLoader options) None None of
        Inl e \<Rightarrow> Inl e
      | Inr revealDocumentResult \<Rightarrow>
     (case createVerifyDocumentData2020 E (key this) revealDocumentResult
             (documentLoader options) (expansionMap options) None of
        Inl e \<Rightarrow> Inl e
      | Inr revealDocumentStatements \<Rightarrow>
     (case revealIndicies proofStatements
             (transformedInputDocumentStatements documentStatements)
             revealDocumentStatements of
        Inl e \<Rightarrow> Inl e
      | Inr indicies \<Rightarrow>
     (case blsCreateProof E signature (publicKeyBuffer (key this))
             (proofStatements @ documentStatements)
             (resolveNonce E (nonce options)) indicies of
        Inl e \<Rightarrow> Inl e
      | Inr outputProof \<Rightarrow>
          Inr (derivedDocument this revealDocumentResult (proof' options) outputProof indicies
                 (length (proofStatements @ documentStatements))
                 (resolveNonce E (nonce options))))))))))))"

section \<open>Verifying a derived proof\<close>

text \<open>The body of the \<^verbatim>\<open>try\<close> block of \<^verbatim>\<open>verifyProof\<close>, lines 191 to 254.\<close>

definition verifyProof_try ::
  "suite \<Rightarrow> env \<Rightarrow> VerifyProofOptions \<Rightarrow> thrown + VerifyProofResult"
where
  "verifyProof_try this E options =
     (case createVerifyProofData this E (JObj (proof' options)) (documentLoader options)
             (expansionMap options) of
        Inl e \<Rightarrow> Inl e
      | Inr proofStatements \<Rightarrow>
     (case createVerifyProofData this E (document options) (documentLoader options)
             (expansionMap options) of
        Inl e \<Rightarrow> Inl e
      | Inr documentStatements \<Rightarrow>
     (case getVerificationMethod this E (proof' options) (documentLoader options) of
        Inl e \<Rightarrow> Inl e
      | Inr verificationMethod \<Rightarrow>
     (case bufferFromBase64 E (get (proof' options) ''proof'') of
        Inl e \<Rightarrow> Inl e
      | Inr proofBytes \<Rightarrow>
     (case blsVerifyProof E proofBytes (publicKeyBuffer (key this))
             (get (proof' options) ''totalStatements'')
             (proofStatements @ transformedDocumentStatements documentStatements)
             (get (proof' options) ''nonce'')
             (get (proof' options) ''revealStatements'') of
        Inl e \<Rightarrow> Inl e
      | Inr result \<Rightarrow>
     (case purpose options (proof' options) (document options) this verificationMethod
             (documentLoader options) (expansionMap options) of
        Inl e \<Rightarrow> Inl e
      | Inr validation \<Rightarrow>
          if \<not> valid validation then Inl (purpose_error validation)
          else Inr result))))))"

text \<open>\<^verbatim>\<open>verifyProof\<close>, lines 187 to 258: whatever the block throws is caught.\<close>

definition verifyProof :: "suite \<Rightarrow> env \<Rightarrow> VerifyProofOptions \<Rightarrow> VerifyProofResult" where
  "verifyProof this E options =
     (case verifyProof_try this E options of
        Inl e \<Rightarrow> \<lparr>verified = False, error = Some e\<rparr>
      | Inr result \<Rightarrow> result)"

section \<open>Deriving, then verifying\<close>

text \<open>The proof object of a derived document.\<close>

definition derivedProof :: "obj \<Rightarrow> obj" where
  "derivedProof derived = spread (get derived ''proof'')"

text \<open>
  The options \<^verbatim>\<open>verifyProof\<close> is called with for a derived document: the proof is its
  \<^verbatim>\<open>proof\<close> property and the document is what remains.
\<close>

definition verifyOptionsOf ::
  "obj \<Rightarrow> documentLoader \<Rightarrow> expansionMap
   \<Rightarrow> (obj \<Rightarrow> json \<Rightarrow> suite \<Rightarrow> json \<Rightarrow> documentLoader \<Rightarrow> expansionMap \<Rightarrow> thrown + PurposeResult)
   \<Rightarrow> VerifyProofOptions"
where
  "verifyOptionsOf derived loader emap validate =
     \<lparr>document = JObj (derived(''proof'' := None)),
      proof' = derivedProof derived,
      documentLoader = loader, expansionMap = emap, purpose = validate\<rparr>"

text \<open>
  The round trip: \<^verbatim>\<open>deriveProof\<close>, then \<^verbatim>\<open>verifyProof\<close> on what it returned, with the same
  suite, document loader and expansion map.
\<close>

definition deriveThenVerify ::
  "suite \<Rightarrow> env \<Rightarrow> DeriveProofOptions
   \<Rightarrow> (obj \<Rightarrow> json \<Rightarrow> suite \<Rightarrow> json \<Rightarrow> documentLoader \<Rightarrow> expansionMap \<Rightarrow> thrown + PurposeResult)
   \<Rightarrow> thrown + VerifyProofResult"
where
  "deriveThenVerify this E options validate =
     (case deriveProof this E options of
        Inl e \<Rightarrow> Inl e
      | Inr derived \<Rightarrow>
          Inr (verifyProof this E
                 (verifyOptionsOf derived (documentLoader options) (expansionMap options)
                    validate)))"

text \<open>A property of the derived proof, \<^verbatim>\<open>undefined\<close> when the derivation threw.\<close>

definition derivedProofProperty :: "thrown + obj \<Rightarrow> string \<Rightarrow> json" where
  "derivedProofProperty outcome k =
     (case outcome of Inl e \<Rightarrow> JUndefined | Inr derived \<Rightarrow> get (derivedProof derived) k)"

section \<open>A small instance\<close>

text \<open>
  A stand-in for the collaborators, small enough to compute with: a document carries its
  canonical statements in the property \<^verbatim>\<open>nquads\<close>, framing a document answers with the
  frame, framing an identifier loads it, and the signature primitive accepts every proof.
\<close>

definition exampleKey :: Bls12381G2KeyPair where
  "exampleKey = \<lparr>publicKeyBuffer = [1, 2, 3]\<rparr>"

definition exampleSuite :: suite where
  "exampleSuite = BbsBlsSignatureProof2020 (Some False) exampleKey"

definition exampleLoader :: documentLoader where
  "exampleLoader url =
     (if url = ''did:example:489398593#test''
      then Inr (JObj [''id'' \<mapsto> JStr url, ''type'' \<mapsto> JStr ''Bls12381G2Key2020''])
      else if url = ''did:example:489398593#old''
      then Inr (JObj [''id'' \<mapsto> JStr url, ''revoked'' \<mapsto> JStr ''2020-05-01T00:00:00Z''])
      else if url = ''did:example:489398593#gone''
      then Inr JNull
      else Inl (External (JStr ''loading document failed'')))"

definition exampleEnv :: env where
  "exampleEnv =
     \<lparr>jsonld_canonize = (\<lambda>input algorithm format loader emap skipExpansion useNative.
          case property input ''nquads'' of JStr s \<Rightarrow> Inr s | _ \<Rightarrow> Inr []),
      jsonld_fromRDF = (\<lambda>s. Inr (JObj [''nquads'' \<mapsto> JStr s])),
      jsonld_frame = (\<lambda>input frame loader compactToRelative expandContext.
          case input of JStr url \<Rightarrow> loader url | _ \<Rightarrow> Inr frame),
      SECURITY_CONTEXT_URL = ''https://w3id.org/security/v2'',
      blsCreateProof = (\<lambda>signature publicKey messages nonceUsed revealed. Inr [7, 7, 7]),
      blsVerifyProof = (\<lambda>proofBytes publicKey messageCount messages nonceUsed revealed.
          Inr \<lparr>verified = True, error = None\<rparr>),
      createVerifyDocumentData2020 = (\<lambda>k doc loader emap compact.
          case property doc ''nquads'' of JStr s \<Rightarrow> Inr (statementsOf s) | _ \<Rightarrow> Inr []),
      createVerifyProofData2020 = (\<lambda>k p loader emap compact.
          case get p ''nquads'' of JStr s \<Rightarrow> Inr (statementsOf s) | _ \<Rightarrow> Inr []),
      bufferFromBase64 = (\<lambda>v.
          case v of JStr s \<Rightarrow> Inr (map of_char s) | _ \<Rightarrow> Inl (External (JStr ''TypeError''))),
      randomSource = (\<lambda>i. of_nat i)\<rparr>"

definition exampleProofStatements :: "string list" where
  "exampleProofStatements =
     [''_:c14n0 <urn:ex:creator> <urn:ex:issuer> .'',
      ''_:c14n0 <urn:ex:purpose> <urn:ex:assertion> .'']"

definition exampleDocumentStatements :: "string list" where
  "exampleDocumentStatements =
     [''<urn:ex:alice> <urn:ex:knows> _:c14n0 .'',
      ''<urn:ex:alice> <urn:ex:mail> <mailto:a@ex.org> .'',
      ''_:c14n0 <urn:ex:name> <urn:ex:bob> .'']"

definition exampleProof :: "string \<Rightarrow> obj" where
  "exampleProof method =
     [''type'' \<mapsto> JStr ''BbsBlsSignature2020'',
      ''verificationMethod'' \<mapsto> JStr method,
      ''signature'' \<mapsto> JStr ''c2lnbmF0dXJl'',
      ''nquads'' \<mapsto> JStr (join_js [CHR 0x0A] exampleProofStatements)]"

definition exampleDocument :: json where
  "exampleDocument = JObj [''nquads'' \<mapsto> JStr (join_js [CHR 0x0A] exampleDocumentStatements)]"

definition exampleDeriveOptions :: "string \<Rightarrow> string \<Rightarrow> string option \<Rightarrow> DeriveProofOptions" where
  "exampleDeriveOptions method revealed suppliedNonce =
     \<lparr>document = exampleDocument, proof' = exampleProof method,
      documentLoader = exampleLoader, expansionMap = None,
      revealDocument = JObj [''nquads'' \<mapsto> JStr revealed],
      compactProof = Some False, nonce = suppliedNonce\<rparr>"

definition examplePurpose ::
  "bool \<Rightarrow> obj \<Rightarrow> json \<Rightarrow> suite \<Rightarrow> json \<Rightarrow> documentLoader \<Rightarrow> expansionMap
     \<Rightarrow> thrown + PurposeResult"
where
  "examplePurpose ok p doc this method loader emap =
     Inr (PurposeResult ok
            (if ok then External JUndefined else External (JStr ''purpose not allowed'')))"

text \<open>
  What \<^verbatim>\<open>deriveProof\<close> returns in the instance when the third document statement is
  revealed with the nonce \<^verbatim>\<open>abc\<close>, and the options to verify it with.
\<close>

definition exampleDerived :: "string \<Rightarrow> obj" where
  "exampleDerived method =
     derivedDocument exampleSuite
       (JObj [''nquads'' \<mapsto> JStr ''<urn:bnid:_:c14n0> <urn:ex:name> <urn:ex:bob> .''])
       (exampleProof method) [7, 7, 7] [0, 1, 4] 5 ''abc''"

definition exampleVerifyOptions :: "string \<Rightarrow> bool \<Rightarrow> VerifyProofOptions" where
  "exampleVerifyOptions method ok =
     verifyOptionsOf (exampleDerived method) exampleLoader None (examplePurpose ok)"

section \<open>The signing suite\<close>


section \<open>An instance with a binding signature primitive\<close>

text \<open>
  A second stand-in, in which a proof is bound to what it reveals: the primitive makes a
  proof out of the number of messages, the nonce, the revealed indices and the revealed
  messages, refuses an index that is out of range, and verifies a proof by making it
  again from what the verifier hands over. The proof value is decoded from base64.
\<close>

definition base64Value :: "char \<Rightarrow> nat" where
  "base64Value c = length (takeWhile (\<lambda>d. d \<noteq> c) base64Alphabet)"

fun fromBase64 :: "string \<Rightarrow> bytes" where
  "fromBase64 (a # b # c # d # r) =
     (let b1 = of_nat (base64Value a * 4 + base64Value b div 16);
          b2 = of_nat (base64Value b mod 16 * 16 + base64Value c div 4);
          b3 = of_nat (base64Value c mod 4 * 64 + base64Value d)
      in if c = CHR ''='' then [b1]
         else if d = CHR ''='' then [b1, b2]
         else b1 # b2 # b3 # fromBase64 r)"
| "fromBase64 s = []"

definition proofFingerprint :: "nat \<Rightarrow> string list \<Rightarrow> string \<Rightarrow> int list \<Rightarrow> bytes" where
  "proofFingerprint messageCount shown nonceUsed revealed =
     map of_char
       (replicate messageCount CHR ''#'' @ ''|'' @ nonceUsed @ ''|''
        @ concat (map (\<lambda>i. replicate (nat i) CHR ''.'' @ '','') revealed) @ ''|''
        @ concat (map (\<lambda>m. m @ [CHR 0x0A]) shown))"

definition jsonInts :: "json \<Rightarrow> int list" where
  "jsonInts v =
     (case v of
        JArr xs \<Rightarrow> map (\<lambda>j. case j of JNum i \<Rightarrow> i | _ \<Rightarrow> - 1) xs
      | _ \<Rightarrow> [])"

definition bindingCreateProof ::
  "bytes \<Rightarrow> bytes \<Rightarrow> string list \<Rightarrow> string \<Rightarrow> int list \<Rightarrow> thrown + bytes"
where
  "bindingCreateProof signature publicKey messages nonceUsed revealed =
     (if list_all (\<lambda>i. 0 \<le> i \<and> i < int (length messages)) revealed
      then Inr (proofFingerprint (length messages) (map (\<lambda>i. messages ! nat i) revealed)
                  nonceUsed revealed)
      else Inl (External (JStr ''revealed index out of range'')))"

definition bindingVerifyProof ::
  "bytes \<Rightarrow> bytes \<Rightarrow> json \<Rightarrow> string list \<Rightarrow> json \<Rightarrow> json \<Rightarrow> thrown + VerifyProofResult"
where
  "bindingVerifyProof proofBytes publicKey messageCount messages nonceUsed revealed =
     (case messageCount of
        JNum n \<Rightarrow>
          (case nonceUsed of
             JStr s \<Rightarrow>
               Inr \<lparr>verified =
                      (proofBytes = proofFingerprint (nat n) messages s (jsonInts revealed)),
                    error = None\<rparr>
           | _ \<Rightarrow> Inl (External (JStr ''nonce is not a string'')))
      | _ \<Rightarrow> Inl (External (JStr ''messageCount is not a number'')))"

definition bindingEnv :: env where
  "bindingEnv =
     exampleEnv
       \<lparr>blsCreateProof := bindingCreateProof,
        blsVerifyProof := bindingVerifyProof,
        bufferFromBase64 := (\<lambda>v.
          case v of JStr s \<Rightarrow> Inr (fromBase64 s) | _ \<Rightarrow> Inl (External (JStr ''TypeError'')))\<rparr>"

text \<open>
  A document with a statement whose subject is an IRI of the placeholder namespace, and
  the options to derive from it with that statement revealed.
\<close>

definition placeholderDocumentStatements :: "string list" where
  "placeholderDocumentStatements =
     [''<urn:bnid:_:c14n0> <urn:ex:name> <urn:ex:bob> .'',
      ''<urn:ex:alice> <urn:ex:mail> <mailto:a@ex.org> .'']"

definition placeholderDeriveOptions :: DeriveProofOptions where
  "placeholderDeriveOptions =
     \<lparr>document = JObj [''nquads'' \<mapsto> JStr (join_js [CHR 0x0A] placeholderDocumentStatements)],
      proof' = exampleProof ''did:example:489398593#test'',
      documentLoader = exampleLoader, expansionMap = None,
      revealDocument = JObj [''nquads'' \<mapsto> JStr ''<urn:bnid:_:c14n0> <urn:ex:name> <urn:ex:bob> .''],
      compactProof = Some False, nonce = Some ''abc''\<rparr>"

text \<open>A proof whose \<^verbatim>\<open>verificationMethod\<close> is \<^verbatim>\<open>null\<close>, and the options to verify it with.\<close>

definition nullMethodOptions :: VerifyProofOptions where
  "nullMethodOptions =
     \<lparr>document = JObj [''nquads'' \<mapsto> JStr ''<urn:bnid:_:c14n0> <urn:ex:name> <urn:ex:bob> .''],
      proof' = (derivedProof (exampleDerived ''did:example:489398593#test''))
                 (''verificationMethod'' \<mapsto> JNull),
      documentLoader = exampleLoader, expansionMap = None, purpose = examplePurpose True\<rparr>"

section \<open>Facts about the string functions\<close>

lemma split_js_first:
  "\<exists>ts. split_js sep s = takeWhile (\<lambda>c. c \<noteq> sep) s # ts"
  by (induction s) (auto split: list.splits)

lemma nodeIdentifier_takeWhile:
  "nodeIdentifier element = takeWhile (\<lambda>c. c \<noteq> CHR '' '') element"
proof -
  obtain ts where "split_js CHR '' '' element = takeWhile (\<lambda>c. c \<noteq> CHR '' '') element # ts"
    using split_js_first by blast
  then show ?thesis by (simp add: nodeIdentifier_def)
qed

lemma nodeIdentifier_split:
  "element = nodeIdentifier element @ dropWhile (\<lambda>c. c \<noteq> CHR '' '') element"
  by (simp add: nodeIdentifier_takeWhile)

lemma nodeIdentifier_no_space: "CHR '' '' \<notin> set (nodeIdentifier element)"
  unfolding nodeIdentifier_takeWhile by (induction element) auto

lemma indexOf_str_prefix: "indexOf_str (p @ s) p = Some 0"
proof (cases "p @ s")
  case Nil
  then show ?thesis by simp
next
  case (Cons a l)
  have "startsWith (p @ s) p"
    by (simp add: startsWith_def)
  then have "startsWith (a # l) p"
    by (simp add: Cons)
  then show ?thesis
    by (simp add: Cons)
qed

lemma getSubstitution_plain:
  "CHR ''$'' \<notin> set repl \<Longrightarrow> getSubstitution matched pre post repl = repl"
  by (induction matched pre post repl rule: getSubstitution.induct) auto

lemma replace_js_prefix:
  "replace_js (p @ s) p repl = getSubstitution p [] s repl @ s"
  by (simp add: replace_js_def indexOf_str_prefix)

lemma replace_js_prefix_plain:
  "CHR ''$'' \<notin> set repl \<Longrightarrow> replace_js (p @ s) p repl = repl @ s"
  by (simp add: replace_js_prefix getSubstitution_plain)

lemma nodeIdentifier_append:
  assumes "CHR '' '' \<notin> set t"
  shows "nodeIdentifier (t @ dropWhile (\<lambda>c. c \<noteq> CHR '' '') element) = t"
proof -
  let ?P = "\<lambda>c. c \<noteq> CHR '' ''"
  have "takeWhile ?P (dropWhile ?P element) = []"
    by (induction element) auto
  moreover have "\<forall>c \<in> set t. ?P c"
    using assms by auto
  ultimately show ?thesis
    by (simp add: nodeIdentifier_takeWhile)
qed

lemma dropWhile_append_rest:
  assumes "CHR '' '' \<notin> set t"
  shows "dropWhile (\<lambda>c. c \<noteq> CHR '' '') (t @ dropWhile (\<lambda>c. c \<noteq> CHR '' '') element)
         = dropWhile (\<lambda>c. c \<noteq> CHR '' '') element"
proof -
  let ?P = "\<lambda>c. c \<noteq> CHR '' ''"
  have "dropWhile ?P (dropWhile ?P element) = dropWhile ?P element"
    by (induction element) auto
  moreover have "\<forall>c \<in> set t. ?P c"
    using assms by auto
  ultimately show ?thesis
    by simp
qed

section \<open>The blank node transforms\<close>

lemma transformInput_wrapped:
  assumes "startsWith (nodeIdentifier e) ''_:c14n''"
    and "CHR ''$'' \<notin> set (nodeIdentifier e)"
  shows "transformInputDocumentStatement e =
           (''<urn:bnid:'' @ nodeIdentifier e @ ''>'') @ dropWhile (\<lambda>c. c \<noteq> CHR '' '') e"
proof -
  let ?n = "nodeIdentifier e"
  let ?rest = "dropWhile (\<lambda>c. c \<noteq> CHR '' '') e"
  have "CHR ''$'' \<notin> set (''<urn:bnid:'' @ ?n @ ''>'')"
    using assms(2) by simp
  then have "replace_js (?n @ ?rest) ?n (''<urn:bnid:'' @ ?n @ ''>'')
             = (''<urn:bnid:'' @ ?n @ ''>'') @ ?rest"
    by (rule replace_js_prefix_plain)
  moreover have "e = ?n @ ?rest"
    by (rule nodeIdentifier_split)
  ultimately have "replace_js e ?n (''<urn:bnid:'' @ ?n @ ''>'')
             = (''<urn:bnid:'' @ ?n @ ''>'') @ ?rest"
    by simp
  then show ?thesis
    using assms(1) by (simp add: transformInputDocumentStatement_def Let_def)
qed

lemma transformInput_unchanged:
  "\<not> startsWith (nodeIdentifier e) ''_:c14n'' \<Longrightarrow> transformInputDocumentStatement e = e"
  by (simp add: transformInputDocumentStatement_def Let_def)

lemma transformDocument_unchanged:
  "\<not> startsWith (nodeIdentifier e) ''<urn:bnid:_:c14n'' \<Longrightarrow> transformDocumentStatement e = e"
  by (simp add: transformDocumentStatement_def Let_def)

lemma substring_js_wrapped:
  "substring_js (''<urn:bnid:'' @ n @ ''>'') (int (length ''<urn:bnid:''))
     (int (length (''<urn:bnid:'' @ n @ ''>'')) - 1) = n"
  by (simp add: substring_js_def Let_def)

lemma startsWith_append: "startsWith s p \<Longrightarrow> \<exists>r. s = p @ r"
  unfolding startsWith_def by (metis append_take_drop_id)

lemma startsWith_wrapped:
  assumes "startsWith n ''_:c14n''"
  shows "startsWith (''<urn:bnid:'' @ n @ ''>'') ''<urn:bnid:_:c14n''"
proof -
  obtain r where "n = ''_:c14n'' @ r"
    using startsWith_append [OF assms] by blast
  then show ?thesis
    by (simp add: startsWith_def)
qed

lemma transformDocument_wrapped:
  assumes "startsWith n ''_:c14n''"
    and "CHR ''$'' \<notin> set n"
    and "CHR '' '' \<notin> set n"
  shows "transformDocumentStatement
           ((''<urn:bnid:'' @ n @ ''>'') @ dropWhile (\<lambda>c. c \<noteq> CHR '' '') e)
         = n @ dropWhile (\<lambda>c. c \<noteq> CHR '' '') e"
proof -
  let ?t = "''<urn:bnid:'' @ n @ ''>''"
  let ?rest = "dropWhile (\<lambda>c. c \<noteq> CHR '' '') e"
  have "CHR '' '' \<notin> set ?t"
    using assms(3) by simp
  then have id: "nodeIdentifier (?t @ ?rest) = ?t"
    by (rule nodeIdentifier_append)
  have sw: "startsWith ?t ''<urn:bnid:_:c14n''"
    using assms(1) by (rule startsWith_wrapped)
  have sub: "substring_js ?t (int (length ''<urn:bnid:'')) (int (length ?t) - 1) = n"
    by (rule substring_js_wrapped)
  have "replace_js (?t @ ?rest) ?t n = n @ ?rest"
    using assms(2) by (rule replace_js_prefix_plain)
  then show ?thesis
    unfolding transformDocumentStatement_def Let_def id using sw sub by simp
qed

lemma roundtrip_statement:
  assumes "\<not> startsWith (nodeIdentifier e) ''<urn:bnid:_:c14n''"
    and "startsWith (nodeIdentifier e) ''_:c14n'' \<longrightarrow> CHR ''$'' \<notin> set (nodeIdentifier e)"
  shows "transformDocumentStatement (transformInputDocumentStatement e) = e"
proof (cases "startsWith (nodeIdentifier e) ''_:c14n''")
  case True
  then have d: "CHR ''$'' \<notin> set (nodeIdentifier e)"
    using assms(2) by simp
  have "transformDocumentStatement (transformInputDocumentStatement e)
        = nodeIdentifier e @ dropWhile (\<lambda>c. c \<noteq> CHR '' '') e"
    unfolding transformInput_wrapped [OF True d]
    by (rule transformDocument_wrapped [OF True d nodeIdentifier_no_space])
  then show ?thesis
    using nodeIdentifier_split [of e] by simp
next
  case False
  then show ?thesis
    using assms(1) by (simp add: transformInput_unchanged transformDocument_unchanged)
qed

lemma transformInput_rest:
  assumes "CHR ''$'' \<notin> set (nodeIdentifier e)"
  shows "dropWhile (\<lambda>c. c \<noteq> CHR '' '') (transformInputDocumentStatement e)
         = dropWhile (\<lambda>c. c \<noteq> CHR '' '') e"
proof (cases "startsWith (nodeIdentifier e) ''_:c14n''")
  case True
  have "CHR '' '' \<notin> set (''<urn:bnid:'' @ nodeIdentifier e @ ''>'')"
    using nodeIdentifier_no_space [of e] by simp
  then show ?thesis
    unfolding transformInput_wrapped [OF True assms] by (rule dropWhile_append_rest)
next
  case False
  then show ?thesis by (simp add: transformInput_unchanged)
qed

lemma set_substring_js: "set (substring_js s a b) \<subseteq> set s"
  unfolding substring_js_def Let_def
  by (meson set_take_subset set_drop_subset subset_trans)

lemma transformDocument_rest:
  assumes "CHR ''$'' \<notin> set (nodeIdentifier e)"
  shows "dropWhile (\<lambda>c. c \<noteq> CHR '' '') (transformDocumentStatement e)
         = dropWhile (\<lambda>c. c \<noteq> CHR '' '') e"
proof (cases "startsWith (nodeIdentifier e) ''<urn:bnid:_:c14n''")
  case True
  let ?n = "nodeIdentifier e"
  let ?rest = "dropWhile (\<lambda>c. c \<noteq> CHR '' '') e"
  let ?r = "substring_js ?n (int (length ''<urn:bnid:'')) (int (length ?n) - 1)"
  have d: "CHR ''$'' \<notin> set ?r" and s: "CHR '' '' \<notin> set ?r"
    using set_substring_js [of ?n] assms nodeIdentifier_no_space [of e] by blast+
  have "replace_js (?n @ ?rest) ?n ?r = ?r @ ?rest"
    using d by (rule replace_js_prefix_plain)
  then have "transformDocumentStatement e = ?r @ ?rest"
    using True nodeIdentifier_split [of e]
    by (simp add: transformDocumentStatement_def Let_def)
  then show ?thesis
    using dropWhile_append_rest [OF s, of e] by simp
next
  case False
  then show ?thesis by (simp add: transformDocument_unchanged)
qed

text \<open>
  A dollar sign in a blank node label is read by \<^verbatim>\<open>replace\<close> as the start of a replacement
  pattern: the label \<^verbatim>\<open>_:c14n$$\<close> comes back as \<^verbatim>\<open>_:c14n$\<close>. No N-Quads label holds one.
\<close>

lemma roundtrip_dollar_label:
  "transformedDocumentStatements (transformedInputDocumentStatements
      [''_:c14n$$ <urn:ex:name> <urn:ex:bob> .''])
    = [''_:c14n$ <urn:ex:name> <urn:ex:bob> .'']"
  by (simp add: transformedDocumentStatements_def transformedInputDocumentStatements_def
      transformDocumentStatement_def transformInputDocumentStatement_def nodeIdentifier_def
      startsWith_def replace_js_def substring_js_def Let_def)

text \<open>
  C6, as stated, fails: a statement whose subject is an IRI of the placeholder namespace
  is left alone by the transform of \<^verbatim>\<open>deriveProof\<close> and rewritten by the transform of
  \<^verbatim>\<open>verifyProof\<close>, so the two transforms in a row do not give the statement list back.
\<close>

theorem blank_node_roundtrip_counterexample:
  "transformedDocumentStatements (transformedInputDocumentStatements
      [''<urn:bnid:_:c14n0> <urn:ex:name> <urn:ex:bob> .''])
    = [''_:c14n0 <urn:ex:name> <urn:ex:bob> .'']
   \<and> transformedDocumentStatements (transformedInputDocumentStatements
      [''<urn:bnid:_:c14n0> <urn:ex:name> <urn:ex:bob> .''])
    \<noteq> [''<urn:bnid:_:c14n0> <urn:ex:name> <urn:ex:bob> .'']"
  by (simp add: transformedDocumentStatements_def transformedInputDocumentStatements_def
      transformDocumentStatement_def transformInputDocumentStatement_def nodeIdentifier_def
      startsWith_def replace_js_def substring_js_def Let_def)

text \<open>
  C6, amended: for every statement list in which no subject starts with the placeholder
  prefix \<^verbatim>\<open><urn:bnid:_:c14n\<close> and no blank node subject holds a dollar sign, the transform of
  \<^verbatim>\<open>deriveProof\<close> followed by the transform of \<^verbatim>\<open>verifyProof\<close> gives the statement list
  back; each of the two steps keeps the number of statements, their order and, in each
  statement, everything after the subject. The transform of \<^verbatim>\<open>verifyProof\<close> keeps the
  number of statements of any list.
\<close>

theorem blank_node_roundtrip:
  assumes "\<forall>e \<in> set ds. \<not> startsWith (nodeIdentifier e) ''<urn:bnid:_:c14n''
             \<and> (startsWith (nodeIdentifier e) ''_:c14n'' \<longrightarrow> CHR ''$'' \<notin> set (nodeIdentifier e))"
  shows "transformedDocumentStatements (transformedInputDocumentStatements ds) = ds
         \<and> length (transformedInputDocumentStatements ds) = length ds
         \<and> length (transformedDocumentStatements ds') = length ds'
         \<and> map (dropWhile (\<lambda>c. c \<noteq> CHR '' '')) (transformedInputDocumentStatements ds)
             = map (dropWhile (\<lambda>c. c \<noteq> CHR '' '')) ds
         \<and> map (dropWhile (\<lambda>c. c \<noteq> CHR '' ''))
               (transformedDocumentStatements (transformedInputDocumentStatements ds))
             = map (dropWhile (\<lambda>c. c \<noteq> CHR '' '')) (transformedInputDocumentStatements ds)"
proof -
  have "map (transformDocumentStatement \<circ> transformInputDocumentStatement) ds = map id ds"
  proof (rule map_cong [OF refl])
    fix e assume "e \<in> set ds"
    then show "(transformDocumentStatement \<circ> transformInputDocumentStatement) e = id e"
      using assms by (simp add: roundtrip_statement)
  qed
  then have roundtrip: "transformedDocumentStatements (transformedInputDocumentStatements ds) = ds"
    by (simp add: transformedDocumentStatements_def transformedInputDocumentStatements_def)
  have "map (dropWhile (\<lambda>c. c \<noteq> CHR '' '') \<circ> transformInputDocumentStatement) ds
        = map (dropWhile (\<lambda>c. c \<noteq> CHR '' '')) ds"
  proof (rule map_cong [OF refl])
    fix e assume e: "e \<in> set ds"
    show "(dropWhile (\<lambda>c. c \<noteq> CHR '' '') \<circ> transformInputDocumentStatement) e
          = dropWhile (\<lambda>c. c \<noteq> CHR '' '') e"
    proof (cases "startsWith (nodeIdentifier e) ''_:c14n''")
      case True
      then have "CHR ''$'' \<notin> set (nodeIdentifier e)"
        using assms e by blast
      then show ?thesis
        by (simp add: transformInput_rest)
    next
      case False
      then show ?thesis
        by (simp add: transformInput_unchanged)
    qed
  qed
  then have rest: "map (dropWhile (\<lambda>c. c \<noteq> CHR '' '')) (transformedInputDocumentStatements ds)
             = map (dropWhile (\<lambda>c. c \<noteq> CHR '' '')) ds"
    by (simp add: transformedInputDocumentStatements_def)
  have len: "length (transformedInputDocumentStatements ds) = length ds"
    "length (transformedDocumentStatements ds') = length ds'"
    by (simp_all add: transformedDocumentStatements_def transformedInputDocumentStatements_def)
  show ?thesis
    unfolding roundtrip rest using len by simp
qed

theorem blank_node_roundtrip_witness:
  "transformedDocumentStatements (transformedInputDocumentStatements exampleDocumentStatements)
     = exampleDocumentStatements
   \<and> length (transformedInputDocumentStatements exampleDocumentStatements) = 3
   \<and> transformedInputDocumentStatements exampleDocumentStatements
     = [''<urn:ex:alice> <urn:ex:knows> _:c14n0 .'',
        ''<urn:ex:alice> <urn:ex:mail> <mailto:a@ex.org> .'',
        ''<urn:bnid:_:c14n0> <urn:ex:name> <urn:ex:bob> .'']"
proof -
  have h: "\<forall>e \<in> set exampleDocumentStatements.
             \<not> startsWith (nodeIdentifier e) ''<urn:bnid:_:c14n''
             \<and> (startsWith (nodeIdentifier e) ''_:c14n'' \<longrightarrow> CHR ''$'' \<notin> set (nodeIdentifier e))"
    by (simp add: exampleDocumentStatements_def nodeIdentifier_def startsWith_def)
  have v: "transformedInputDocumentStatements exampleDocumentStatements
     = [''<urn:ex:alice> <urn:ex:knows> _:c14n0 .'',
        ''<urn:ex:alice> <urn:ex:mail> <mailto:a@ex.org> .'',
        ''<urn:bnid:_:c14n0> <urn:ex:name> <urn:ex:bob> .'']"
    by (simp add: exampleDocumentStatements_def transformedInputDocumentStatements_def
        transformInputDocumentStatement_def nodeIdentifier_def startsWith_def replace_js_def
        Let_def)
  from blank_node_roundtrip [OF h] v show ?thesis
    by (simp add: exampleDocumentStatements_def)
qed

section \<open>Facts about deriving\<close>

lemma revealIndicies_value:
  "revealIndicies ps ts rs
     = Inr (map int [0..<length ps] @ map (\<lambda>k. indexOf ts k + int (length ps)) rs)"
  by (simp add: revealIndicies_def Let_def)

lemma revealIndicies_never_throws: "revealIndicies ps ts rs \<noteq> Inl e"
  by (simp add: revealIndicies_value)

lemma indexOf_absent: "k \<notin> set ts \<Longrightarrow> indexOf ts k = - 1"
  by (induction ts) (auto simp: Let_def)


lemma revealIndicies_unmatched:
  assumes "k \<in> set rs" and "k \<notin> set ts"
    and "revealIndicies ps ts rs = Inr indicies"
  shows "int (length ps) - 1 \<in> set indicies"
proof -
  have "indexOf ts k + int (length ps) \<in> (\<lambda>k. indexOf ts k + int (length ps)) ` set rs"
    using assms(1) by (rule imageI)
  then show ?thesis
    using assms(2,3) by (auto simp: revealIndicies_value indexOf_absent)
qed

lemma toBase64_Nil_iff: "toBase64 bs = [] \<longleftrightarrow> bs = []"
  by (cases bs rule: toBase64.cases) simp_all

lemma length_randomBytes: "length (randomBytes E n) = n"
  by (simp add: randomBytes_def)

lemma resolveNonce_not_empty: "resolveNonce E suppliedNonce \<noteq> []"
  by (auto simp: resolveNonce_def toBase64_Nil_iff randomBytes_def split: option.splits)

lemma deriveProof_Inr:
  assumes "deriveProof this E options = Inr out"
  shows "\<exists>signature ds ps c r rs idx outputProof.
      isString (get (proof' options) ''type'') ''BbsBlsSignature2020''
    \<and> bufferFromBase64 E (get (proof' options) ''signature'') = Inr signature
    \<and> createVerifyDocumentData2020 E (key this) (document options)
         (documentLoader options) (expansionMap options) (compactProof options) = Inr ds
    \<and> createVerifyProofData2020 E (key this) (proof' options)
         (documentLoader options) (expansionMap options) (compactProof options) = Inr ps
    \<and> jsonld_fromRDF E (join_js [CHR 0x0A] (transformedInputDocumentStatements ds)) = Inr c
    \<and> jsonld_frame E c (revealDocument options) (documentLoader options) None None = Inr r
    \<and> createVerifyDocumentData2020 E (key this) r
         (documentLoader options) (expansionMap options) None = Inr rs
    \<and> revealIndicies ps (transformedInputDocumentStatements ds) rs = Inr idx
    \<and> blsCreateProof E signature (publicKeyBuffer (key this)) (ps @ ds)
         (resolveNonce E (nonce options)) idx = Inr outputProof
    \<and> out = derivedDocument this r (proof' options) outputProof idx (length (ps @ ds))
         (resolveNonce E (nonce options))"
  using assms unfolding deriveProof_def
  by (simp split: if_splits sum.splits)

lemma derivedProof_derivedDocument:
  "derivedProof (derivedDocument this r p outputProof idx n nu)
     = ([''type'' \<mapsto> JStr (suite_type this)] ++ ((p(''signature'' := None))(''type'' := None)))
         (''proof'' \<mapsto> JStr (toBase64 outputProof),
          ''revealStatements'' \<mapsto> JArr (map JNum idx),
          ''totalStatements'' \<mapsto> JNum (int n),
          ''nonce'' \<mapsto> JStr nu)"
  by (simp add: derivedProof_def derivedDocument_def get_def spread_def Let_def)

lemma derivedProof_nonce:
  "get (derivedProof (derivedDocument this r p outputProof idx n nu)) ''nonce'' = JStr nu"
  by (simp add: derivedProof_derivedDocument get_def)

lemma derivedProof_revealStatements:
  "get (derivedProof (derivedDocument this r p outputProof idx n nu)) ''revealStatements''
     = JArr (map JNum idx)"
  by (simp add: derivedProof_derivedDocument get_def)



lemma derivedProof_type:
  "get (derivedProof (derivedDocument this r p outputProof idx n nu)) ''type''
     = JStr (suite_type this)"
  by (simp add: derivedProof_derivedDocument get_def map_add_def)

section \<open>Facts about verifying\<close>

lemma verifyProof_caught:
  "verifyProof_try this E options = Inl e
   \<Longrightarrow> verifyProof this E options = \<lparr>verified = False, error = Some e\<rparr>"
  by (simp add: verifyProof_def)

lemma verifyProof_returned:
  "verifyProof_try this E options = Inr r \<Longrightarrow> verifyProof this E options = r"
  by (simp add: verifyProof_def)

lemma verifyProof_try_Inr:
  assumes "verifyProof_try this E options = Inr r"
  shows "\<exists>ps ds vm bytes v.
      createVerifyProofData this E (JObj (proof' options)) (documentLoader options)
        (expansionMap options) = Inr ps
    \<and> createVerifyProofData this E (document options) (documentLoader options)
        (expansionMap options) = Inr ds
    \<and> getVerificationMethod this E (proof' options) (documentLoader options) = Inr vm
    \<and> bufferFromBase64 E (get (proof' options) ''proof'') = Inr bytes
    \<and> blsVerifyProof E bytes (publicKeyBuffer (key this))
        (get (proof' options) ''totalStatements'')
        (ps @ transformedDocumentStatements ds)
        (get (proof' options) ''nonce'')
        (get (proof' options) ''revealStatements'') = Inr r
    \<and> purpose options (proof' options) (document options) this vm
        (documentLoader options) (expansionMap options) = Inr v
    \<and> valid v"
  using assms unfolding verifyProof_try_def
  by (simp split: sum.splits if_splits)

lemma getVerificationMethod_Inl_try:
  assumes "getVerificationMethod this E (proof' options) (documentLoader options) = Inl e"
  shows "\<exists>e'. verifyProof_try this E options = Inl e'"
  using assms unfolding verifyProof_try_def
  by (simp split: sum.splits)

lemma getVerificationMethod_missing:
  "verificationMethodReference p = Inr v \<Longrightarrow> falsy v
   \<Longrightarrow> getVerificationMethod this E p loader = Inl MissingReference"
  by (simp add: getVerificationMethod_def)

lemma verificationMethodReference_absent:
  "p ''verificationMethod'' = None \<Longrightarrow> verificationMethodReference p = Inr JUndefined"
  by (simp add: verificationMethodReference_def get_def typeof_object_def)

lemma verificationMethodReference_direct:
  "p ''verificationMethod'' = Some (JStr s) \<Longrightarrow> verificationMethodReference p = Inr (JStr s)"
  by (simp add: verificationMethodReference_def get_def typeof_object_def)

lemma verificationMethodReference_embedded:
  "p ''verificationMethod'' = Some (JObj m) \<Longrightarrow> verificationMethodReference p = Inr (get m ''id'')"
  by (simp add: verificationMethodReference_def get_def typeof_object_def isNull_def property_def)

lemma getVerificationMethod_null:
  "p ''verificationMethod'' = Some JNull
   \<Longrightarrow> getVerificationMethod this E p loader = Inl NullReference"
  by (simp add: getVerificationMethod_def verificationMethodReference_def get_def
      typeof_object_def isNull_def)

lemma createVerifyProofData_unfold:
  "createVerifyProofData this E v loader emap
     = (case jsonld_canonize E
               (JObj ((spread v)(''totalStatements'' := None, ''revealStatements'' := None,
                                ''nonce'' := None, ''proof'' := None)))
               ''URDNA2015'' ''application/n-quads'' loader emap (Some False)
               (useNativeCanonize this) of
          Inl e \<Rightarrow> Inl e
        | Inr c14n \<Rightarrow> Inr (statementsOf c14n))"
  by (simp add: createVerifyProofData_def canonizeProof_def canonize_def Let_def)

section \<open>The small instance, computed\<close>

lemmas example_defs =
  exampleSuite_def exampleKey_def exampleEnv_def exampleLoader_def exampleProof_def
  exampleDocument_def exampleDeriveOptions_def exampleProofStatements_def
  exampleDocumentStatements_def BbsBlsSignatureProof2020_def

lemma example_derive_steps:
  "createVerifyDocumentData2020 exampleEnv k exampleDocument l m c = Inr exampleDocumentStatements"
  "createVerifyProofData2020 exampleEnv k (exampleProof method) l m c = Inr exampleProofStatements"
  by (simp_all add: example_defs property_def get_def statementsOf_def)

lemma example_transformed:
  "transformedInputDocumentStatements exampleDocumentStatements
     = [''<urn:ex:alice> <urn:ex:knows> _:c14n0 .'',
        ''<urn:ex:alice> <urn:ex:mail> <mailto:a@ex.org> .'',
        ''<urn:bnid:_:c14n0> <urn:ex:name> <urn:ex:bob> .'']"
  by (simp add: exampleDocumentStatements_def transformedInputDocumentStatements_def
        transformInputDocumentStatement_def nodeIdentifier_def startsWith_def replace_js_def
        Let_def)

lemma example_deriveProof:
  "deriveProof exampleSuite exampleEnv (exampleDeriveOptions method revealed suppliedNonce)
     = Inr (derivedDocument exampleSuite (JObj [''nquads'' \<mapsto> JStr revealed])
              (exampleProof method) [7, 7, 7]
              ([0, 1] @ map (\<lambda>k. indexOf (transformedInputDocumentStatements exampleDocumentStatements) k + 2) (statementsOf revealed))
              5 (resolveNonce exampleEnv suppliedNonce))"
proof -
  have 1: "createVerifyDocumentData2020 exampleEnv k exampleDocument l m c = Inr exampleDocumentStatements" for k l m c
    by (rule example_derive_steps)
  have 2: "createVerifyProofData2020 exampleEnv k (exampleProof method) l m c = Inr exampleProofStatements" for k l m c
    by (rule example_derive_steps)
  have 3: "createVerifyDocumentData2020 exampleEnv k (JObj [''nquads'' \<mapsto> JStr revealed]) l m c = Inr (statementsOf revealed)" for k l m c
    by (simp add: exampleEnv_def property_def get_def)
  have 4: "jsonld_fromRDF exampleEnv s = Inr (JObj [''nquads'' \<mapsto> JStr s])" for s
    by (simp add: exampleEnv_def)
  have 5: "jsonld_frame exampleEnv (JObj x) f l a b = Inr f" for x f l a b
    by (simp add: exampleEnv_def)
  have 6: "blsCreateProof exampleEnv a b c d e = Inr [7, 7, 7]" for a b c d e
    by (simp add: exampleEnv_def)
  have 7: "bufferFromBase64 exampleEnv (JStr s) = Inr (map of_char s)" for s
    by (simp add: exampleEnv_def)
  have 8: "get (exampleProof method) ''type'' = JStr ''BbsBlsSignature2020''"
     "get (exampleProof method) ''signature'' = JStr ''c2lnbmF0dXJl''"
    by (simp_all add: exampleProof_def get_def)
  have 9: "length exampleProofStatements = 2" "length exampleDocumentStatements = 3"
    by (simp_all add: exampleProofStatements_def exampleDocumentStatements_def)
  have 10: "[0..<2] = [0, 1]"
    by (simp add: numeral_2_eq_2)
  show ?thesis
    unfolding deriveProof_def
    by (simp add: exampleDeriveOptions_def 1 2 3 4 5 6 7 8 9 10 isString_def
        revealIndicies_value)
qed

lemma example_randomBytes:
  "toBase64 (randomBytes exampleEnv 50)
     = ''AAECAwQFBgcICQoLDA0ODxAREhMUFRYXGBkaGxwdHh8gISIjJCUmJygpKissLS4vMDE=''"
  by code_simp



lemma example_verify_options:
  "proof' (exampleVerifyOptions method ok) = derivedProof (exampleDerived method)"
  "document (exampleVerifyOptions method ok)
     = JObj [''nquads'' \<mapsto> JStr ''<urn:bnid:_:c14n0> <urn:ex:name> <urn:ex:bob> .'']"
  "documentLoader (exampleVerifyOptions method ok) = exampleLoader"
  "expansionMap (exampleVerifyOptions method ok) = None"
  "purpose (exampleVerifyOptions method ok) = examplePurpose ok"
  by (simp_all add: exampleVerifyOptions_def verifyOptionsOf_def exampleDerived_def
      derivedDocument_def spread_def Let_def)

lemma example_derived_proof:
  "get (derivedProof (exampleDerived method)) ''verificationMethod'' = JStr method"
  "get (derivedProof (exampleDerived method)) ''proof'' = JStr ''BwcH''"
  "get (derivedProof (exampleDerived method)) ''totalStatements'' = JNum 5"
  "get (derivedProof (exampleDerived method)) ''nonce'' = JStr ''abc''"
  "get (derivedProof (exampleDerived method)) ''revealStatements''
     = JArr [JNum 0, JNum 1, JNum 4]"
  by (simp_all add: exampleDerived_def derivedProof_derivedDocument get_def exampleProof_def
      map_add_def base64Digit_def base64Alphabet_def)

lemma example_verify_statements:
  "createVerifyProofData exampleSuite exampleEnv (JObj (derivedProof (exampleDerived method)))
     loader emap = Inr exampleProofStatements"
  "createVerifyProofData exampleSuite exampleEnv
     (JObj [''nquads'' \<mapsto> JStr ''<urn:bnid:_:c14n0> <urn:ex:name> <urn:ex:bob> .''])
     loader emap = Inr [''<urn:bnid:_:c14n0> <urn:ex:name> <urn:ex:bob> .'']"
  by (simp_all add: createVerifyProofData_unfold exampleDerived_def derivedProof_derivedDocument
      exampleEnv_def exampleProof_def exampleProofStatements_def spread_def property_def
      get_def map_add_def statementsOf_def)

lemma example_reference:
  "verificationMethodReference (derivedProof (exampleDerived method)) = Inr (JStr method)"
  by (simp add: verificationMethodReference_def example_derived_proof typeof_object_def)

lemma example_frame:
  "jsonld_frame exampleEnv (JStr url) f loader a b = loader url"
  by (simp add: exampleEnv_def)

lemma example_getVerificationMethod:
  "getVerificationMethod exampleSuite exampleEnv (derivedProof (exampleDerived
      ''did:example:489398593#test'')) exampleLoader
   = Inr (JObj [''id'' \<mapsto> JStr ''did:example:489398593#test'',
                ''type'' \<mapsto> JStr ''Bls12381G2Key2020''])"
  "getVerificationMethod exampleSuite exampleEnv (derivedProof (exampleDerived
      ''did:example:489398593#old'')) exampleLoader = Inl Revoked"
  "getVerificationMethod exampleSuite exampleEnv (derivedProof (exampleDerived
      ''did:example:489398593#gone'')) exampleLoader
   = Inl (NotFound (JStr ''did:example:489398593#gone''))"
  "getVerificationMethod exampleSuite exampleEnv (derivedProof (exampleDerived [])) exampleLoader
   = Inl MissingReference"
  by (simp_all add: getVerificationMethod_def example_reference example_frame
      falsy_def exampleLoader_def property_def get_def isUndefined_def)

lemma example_bufferFromBase64:
  "bufferFromBase64 exampleEnv (JStr s) = Inr (map of_char s)"
  by (simp add: exampleEnv_def)

lemma example_blsVerifyProof:
  "blsVerifyProof exampleEnv bytes publicKey messageCount messages nonceUsed revealed
     = Inr \<lparr>verified = True, error = None\<rparr>"
  by (simp add: exampleEnv_def)

section \<open>The messages at the revealed indices\<close>




section \<open>More of the small instance\<close>





lemma null_method_statements:
  "createVerifyProofData exampleSuite exampleEnv (JObj (proof' nullMethodOptions))
     (documentLoader nullMethodOptions) (expansionMap nullMethodOptions)
   = Inr exampleProofStatements"
  "createVerifyProofData exampleSuite exampleEnv (document nullMethodOptions)
     (documentLoader nullMethodOptions) (expansionMap nullMethodOptions)
   = Inr [''<urn:bnid:_:c14n0> <urn:ex:name> <urn:ex:bob> .'']"
  by (simp_all add: nullMethodOptions_def createVerifyProofData_unfold exampleDerived_def
      derivedProof_derivedDocument exampleEnv_def exampleProof_def exampleProofStatements_def
      spread_def property_def get_def map_add_def statementsOf_def)

section \<open>The instance with the binding primitive, computed\<close>














text \<open>
  With the binding primitive the round trip does not verify a document statement whose
  subject is in the placeholder namespace, which \<^verbatim>\<open>verifyProof\<close> turns into a blank node
  label, nor a reveal document with a statement the document does not contain, for which
  \<^verbatim>\<open>deriveProof\<close> emits the index of another message.
\<close>

lemma roundtrip_placeholder_subject:
  "case deriveThenVerify exampleSuite bindingEnv placeholderDeriveOptions (examplePurpose True) of
     Inl e \<Rightarrow> False
   | Inr res \<Rightarrow> \<not> verified res \<and> Option.is_none (error res)"
  by code_simp

lemma roundtrip_outside_document:
  "case deriveThenVerify exampleSuite bindingEnv
          (exampleDeriveOptions ''did:example:489398593#test''
             ''<urn:ex:alice> <urn:ex:age> <urn:ex:30> .'' (Some ''abc''))
          (examplePurpose True) of
     Inl e \<Rightarrow> False
   | Inr res \<Rightarrow> \<not> verified res \<and> Option.is_none (error res)"
  by code_simp

section \<open>Properties of \<^verbatim>\<open>deriveProof\<close>\<close>

text \<open>
  C4: when \<^verbatim>\<open>deriveProof\<close> succeeds, the \<^verbatim>\<open>revealStatements\<close> of the derived proof are the
  indices \<open>0\<close> to \<open>numberOfProofStatements - 1\<close> followed by one index for each statement of the
  canonicalized reveal document: the list begins with every proof statement index, and
  its length is the number of proof statements plus the number of revealed statements.
  The premises after the first name the statement lists the collaborators returned.
\<close>

theorem deriveProof_revealStatements:
  assumes "deriveProof this E options = Inr out"
    and "createVerifyDocumentData2020 E (key this) (document options)
           (documentLoader options) (expansionMap options) (compactProof options) = Inr ds"
    and "createVerifyProofData2020 E (key this) (proof' options)
           (documentLoader options) (expansionMap options) (compactProof options) = Inr ps"
    and "jsonld_fromRDF E (join_js [CHR 0x0A] (transformedInputDocumentStatements ds)) = Inr c"
    and "jsonld_frame E c (revealDocument options) (documentLoader options) None None = Inr r"
    and "createVerifyDocumentData2020 E (key this) r
           (documentLoader options) (expansionMap options) None = Inr rs"
  shows "\<exists>indicies.
      indicies = map int [0..<length ps]
         @ map (\<lambda>k. indexOf (transformedInputDocumentStatements ds) k + int (length ps)) rs
    \<and> get (derivedProof out) ''revealStatements'' = JArr (map JNum indicies)
    \<and> take (length ps) indicies = map int [0..<length ps]
    \<and> length indicies = length ps + length rs"
proof -
  from deriveProof_Inr [OF assms(1)] assms(2-6) obtain idx outputProof where
    idx: "revealIndicies ps (transformedInputDocumentStatements ds) rs = Inr idx"
    and out: "out = derivedDocument this r (proof' options) outputProof idx (length (ps @ ds))
         (resolveNonce E (nonce options))"
    by auto
  from idx have v: "idx = map int [0..<length ps]
      @ map (\<lambda>k. indexOf (transformedInputDocumentStatements ds) k + int (length ps)) rs"
    by (simp add: revealIndicies_value)
  have "get (derivedProof out) ''revealStatements'' = JArr (map JNum idx)"
    unfolding out by (rule derivedProof_revealStatements)
  then show ?thesis
    by (simp add: v)
qed

text \<open>
  The instance: two proof statements, three document statements, the third one revealed.
\<close>

theorem deriveProof_revealStatements_witness:
  "derivedProofProperty
     (deriveProof exampleSuite exampleEnv
        (exampleDeriveOptions ''did:example:489398593#test''
           ''<urn:bnid:_:c14n0> <urn:ex:name> <urn:ex:bob> .'' (Some ''abc'')))
     ''revealStatements''
   = JArr [JNum 0, JNum 1, JNum 4]"
proof -
  let ?r = "''<urn:bnid:_:c14n0> <urn:ex:name> <urn:ex:bob> .''"
  let ?o = "exampleDeriveOptions ''did:example:489398593#test'' ?r (Some ''abc'')"
  obtain out where d: "deriveProof exampleSuite exampleEnv ?o = Inr out"
    by (simp add: example_deriveProof)
  have ds: "createVerifyDocumentData2020 exampleEnv (key exampleSuite) (document ?o)
           (documentLoader ?o) (expansionMap ?o) (compactProof ?o) = Inr exampleDocumentStatements"
    by (simp add: exampleDeriveOptions_def example_derive_steps)
  have ps: "createVerifyProofData2020 exampleEnv (key exampleSuite) (proof' ?o)
           (documentLoader ?o) (expansionMap ?o) (compactProof ?o) = Inr exampleProofStatements"
    by (simp add: exampleDeriveOptions_def example_derive_steps)
  have c: "jsonld_fromRDF exampleEnv
             (join_js [CHR 0x0A] (transformedInputDocumentStatements exampleDocumentStatements))
           = Inr (JObj [''nquads'' \<mapsto> JStr (join_js [CHR 0x0A]
                   (transformedInputDocumentStatements exampleDocumentStatements))])"
    by (simp add: exampleEnv_def)
  have r: "jsonld_frame exampleEnv
             (JObj [''nquads'' \<mapsto> JStr (join_js [CHR 0x0A]
                   (transformedInputDocumentStatements exampleDocumentStatements))])
             (revealDocument ?o) (documentLoader ?o) None None
           = Inr (JObj [''nquads'' \<mapsto> JStr ?r])"
    by (simp add: exampleEnv_def exampleDeriveOptions_def)
  have rs: "createVerifyDocumentData2020 exampleEnv (key exampleSuite)
             (JObj [''nquads'' \<mapsto> JStr ?r]) (documentLoader ?o) (expansionMap ?o) None
           = Inr [?r]"
    by (simp add: exampleEnv_def property_def get_def statementsOf_def)
  have l: "length exampleProofStatements = 2" "[0..<2] = [0, 1]"
    by (simp_all add: exampleProofStatements_def numeral_2_eq_2)
  from deriveProof_revealStatements [OF d ds ps c r rs]
  have "get (derivedProof out) ''revealStatements'' = JArr [JNum 0, JNum 1, JNum 4]"
    by (simp add: l example_transformed)
  then show ?thesis
    by (simp add: d derivedProofProperty_def)
qed

text \<open>
  C1: a statement of the reveal document that is not among the transformed document
  statements should make \<^verbatim>\<open>deriveProof\<close> fail. It does not: \<^verbatim>\<open>indexOf\<close> answers \<open>-1\<close>, the
  lengths compared at line 139 are those of a list and of its image under \<^verbatim>\<open>map\<close>, and the
  derivation goes on with the index \<open>numberOfProofStatements - 1\<close>. Here the reveal document
  holds one statement the document does not have, there are two proof statements, and the
  derived proof reveals the indices \<open>0\<close>, \<open>1\<close> and \<open>1\<close>.
\<close>

theorem deriveProof_unmatched_statement:
  "derivedProofProperty
     (deriveProof exampleSuite exampleEnv
        (exampleDeriveOptions ''did:example:489398593#test''
           ''<urn:ex:alice> <urn:ex:age> <urn:ex:30> .'' (Some ''abc'')))
     ''revealStatements''
   = JArr [JNum 0, JNum 1, JNum 1]
   \<and> ''<urn:ex:alice> <urn:ex:age> <urn:ex:30> .''
       \<notin> set (transformedInputDocumentStatements exampleDocumentStatements)"
  by (simp add: example_deriveProof derivedProofProperty_def derivedProof_revealStatements
      example_transformed statementsOf_def)

text \<open>
  C5, as stated, fails for a supplied nonce that is the empty string: the derived proof
  carries a generated nonce instead.
\<close>

theorem deriveProof_nonce_counterexample:
  "derivedProofProperty
     (deriveProof exampleSuite exampleEnv
        (exampleDeriveOptions ''did:example:489398593#test''
           ''<urn:bnid:_:c14n0> <urn:ex:name> <urn:ex:bob> .'' (Some '''')))
     ''nonce''
   = JStr ''AAECAwQFBgcICQoLDA0ODxAREhMUFRYXGBkaGxwdHh8gISIjJCUmJygpKissLS4vMDE=''"
  by (simp add: example_deriveProof derivedProofProperty_def derivedProof_nonce
      resolveNonce_def example_randomBytes)

text \<open>
  C5, amended: when \<^verbatim>\<open>deriveProof\<close> succeeds with a supplied nonce that is not empty, the
  \<^verbatim>\<open>nonce\<close> of the derived proof is that nonce; when no nonce is supplied, it is the
  base64 encoding of 50 bytes taken from the random source.
\<close>

theorem deriveProof_nonce:
  assumes "deriveProof this E options = Inr out"
  shows "(\<forall>n. nonce options = Some n \<and> n \<noteq> [] \<longrightarrow> get (derivedProof out) ''nonce'' = JStr n)
       \<and> (nonce options = None \<longrightarrow>
            get (derivedProof out) ''nonce'' = JStr (toBase64 (randomBytes E 50))
            \<and> length (randomBytes E 50) = 50)"
proof -
  from deriveProof_Inr [OF assms] obtain r idx outputProof n where
    "out = derivedDocument this r (proof' options) outputProof idx n
             (resolveNonce E (nonce options))"
    by blast
  then have "get (derivedProof out) ''nonce'' = JStr (resolveNonce E (nonce options))"
    by (simp add: derivedProof_nonce)
  then show ?thesis
    by (auto simp: resolveNonce_def length_randomBytes)
qed

text \<open>The instance, once with the nonce \<^verbatim>\<open>abc\<close> and once with none.\<close>

theorem deriveProof_nonce_witness:
  "derivedProofProperty
     (deriveProof exampleSuite exampleEnv
        (exampleDeriveOptions ''did:example:489398593#test''
           ''<urn:bnid:_:c14n0> <urn:ex:name> <urn:ex:bob> .'' (Some ''abc'')))
     ''nonce'' = JStr ''abc''
   \<and> derivedProofProperty
     (deriveProof exampleSuite exampleEnv
        (exampleDeriveOptions ''did:example:489398593#test''
           ''<urn:bnid:_:c14n0> <urn:ex:name> <urn:ex:bob> .'' None))
     ''nonce''
     = JStr ''AAECAwQFBgcICQoLDA0ODxAREhMUFRYXGBkaGxwdHh8gISIjJCUmJygpKissLS4vMDE=''"
proof -
  let ?m = "''did:example:489398593#test''"
  let ?r = "''<urn:bnid:_:c14n0> <urn:ex:name> <urn:ex:bob> .''"
  obtain out1 where d1: "deriveProof exampleSuite exampleEnv (exampleDeriveOptions ?m ?r (Some ''abc'')) = Inr out1"
    by (simp add: example_deriveProof)
  obtain out2 where d2: "deriveProof exampleSuite exampleEnv (exampleDeriveOptions ?m ?r None) = Inr out2"
    by (simp add: example_deriveProof)
  have n1: "nonce (exampleDeriveOptions ?m ?r (Some ''abc'')) = Some ''abc''"
    and n2: "nonce (exampleDeriveOptions ?m ?r None) = None"
    by (simp_all add: exampleDeriveOptions_def)
  from deriveProof_nonce [OF d1] n1 have "get (derivedProof out1) ''nonce'' = JStr ''abc''"
    by simp
  moreover from deriveProof_nonce [OF d2] n2
  have "get (derivedProof out2) ''nonce'' = JStr (toBase64 (randomBytes exampleEnv 50))"
    by simp
  ultimately show ?thesis
    by (simp add: d1 d2 derivedProofProperty_def example_randomBytes)
qed

text \<open>
  C10: when \<^verbatim>\<open>deriveProof\<close> succeeds with the empty string as supplied nonce, the \<^verbatim>\<open>nonce\<close> of
  the derived proof is the base64 encoding of 50 bytes taken from the random source, and
  not the supplied value.
\<close>

theorem deriveProof_falsy_nonce:
  assumes "deriveProof this E options = Inr out"
    and "nonce options = Some []"
  shows "get (derivedProof out) ''nonce'' = JStr (toBase64 (randomBytes E 50))
       \<and> length (randomBytes E 50) = 50
       \<and> get (derivedProof out) ''nonce'' \<noteq> JStr []"
proof -
  from deriveProof_Inr [OF assms(1)] obtain r idx outputProof n where
    "out = derivedDocument this r (proof' options) outputProof idx n
             (resolveNonce E (nonce options))"
    by blast
  then have "get (derivedProof out) ''nonce'' = JStr (resolveNonce E (nonce options))"
    by (simp add: derivedProof_nonce)
  then show ?thesis
    using assms(2) by (simp add: resolveNonce_def length_randomBytes toBase64_Nil_iff randomBytes_def)
qed

text \<open>The instance with the empty string as nonce.\<close>

theorem deriveProof_falsy_nonce_witness:
  "derivedProofProperty
     (deriveProof exampleSuite exampleEnv
        (exampleDeriveOptions ''did:example:489398593#test''
           ''<urn:ex:alice> <urn:ex:mail> <mailto:a@ex.org> .'' (Some '''')))
     ''nonce''
   = JStr ''AAECAwQFBgcICQoLDA0ODxAREhMUFRYXGBkaGxwdHh8gISIjJCUmJygpKissLS4vMDE=''"
proof -
  let ?o = "exampleDeriveOptions ''did:example:489398593#test''
           ''<urn:ex:alice> <urn:ex:mail> <mailto:a@ex.org> .'' (Some '''')"
  obtain out where d: "deriveProof exampleSuite exampleEnv ?o = Inr out"
    by (simp add: example_deriveProof)
  have n: "nonce ?o = Some []"
    by (simp add: exampleDeriveOptions_def)
  from deriveProof_falsy_nonce [OF d n] show ?thesis
    by (simp add: d derivedProofProperty_def example_randomBytes)
qed

section \<open>Properties of \<^verbatim>\<open>verifyProof\<close>\<close>

text \<open>
  C3: \<^verbatim>\<open>verifyProof\<close> returns a result for every input. Either its block threw some \<open>e\<close> and
  the result is \<^verbatim>\<open>{ verified: false, error: e }\<close>, or the block returned and the result is
  what it returned. Step by step: whichever step fails (canonicalizing the proof,
  canonicalizing the document, resolving the verification method, decoding the proof
  value, the signature primitive, the purpose validator throwing or reporting an invalid
  purpose), the result is \<^verbatim>\<open>{ verified: false, error }\<close> with what that step threw; when none
  fails, the result is the answer of the signature primitive.
\<close>

theorem verifyProof_never_throws:
  "((\<exists>e. verifyProof_try this E options = Inl e
         \<and> verifyProof this E options = \<lparr>verified = False, error = Some e\<rparr>)
     \<or> (\<exists>r. verifyProof_try this E options = Inr r \<and> verifyProof this E options = r))
   \<and> verifyProof this E options =
     (case createVerifyProofData this E (JObj (proof' options)) (documentLoader options)
             (expansionMap options) of
        Inl e \<Rightarrow> \<lparr>verified = False, error = Some e\<rparr>
      | Inr proofStatements \<Rightarrow>
     (case createVerifyProofData this E (document options) (documentLoader options)
             (expansionMap options) of
        Inl e \<Rightarrow> \<lparr>verified = False, error = Some e\<rparr>
      | Inr documentStatements \<Rightarrow>
     (case getVerificationMethod this E (proof' options) (documentLoader options) of
        Inl e \<Rightarrow> \<lparr>verified = False, error = Some e\<rparr>
      | Inr verificationMethod \<Rightarrow>
     (case bufferFromBase64 E (get (proof' options) ''proof'') of
        Inl e \<Rightarrow> \<lparr>verified = False, error = Some e\<rparr>
      | Inr proofBytes \<Rightarrow>
     (case blsVerifyProof E proofBytes (publicKeyBuffer (key this))
             (get (proof' options) ''totalStatements'')
             (proofStatements @ transformedDocumentStatements documentStatements)
             (get (proof' options) ''nonce'')
             (get (proof' options) ''revealStatements'') of
        Inl e \<Rightarrow> \<lparr>verified = False, error = Some e\<rparr>
      | Inr result \<Rightarrow>
     (case purpose options (proof' options) (document options) this verificationMethod
             (documentLoader options) (expansionMap options) of
        Inl e \<Rightarrow> \<lparr>verified = False, error = Some e\<rparr>
      | Inr validation \<Rightarrow>
          if \<not> valid validation
          then \<lparr>verified = False, error = Some (purpose_error validation)\<rparr>
          else result))))))"
proof -
  have "(\<exists>e. verifyProof_try this E options = Inl e
         \<and> verifyProof this E options = \<lparr>verified = False, error = Some e\<rparr>)
     \<or> (\<exists>r. verifyProof_try this E options = Inr r \<and> verifyProof this E options = r)"
    by (cases "verifyProof_try this E options") (simp_all add: verifyProof_def)
  then show ?thesis
    by (simp add: verifyProof_def verifyProof_try_def split: sum.splits)
qed

text \<open>
  What \<^verbatim>\<open>getVerificationMethod\<close> answers, case by case: \<open>MissingReference\<close> when the proof has
  no \<^verbatim>\<open>verificationMethod\<close>, an embedded one without \<^verbatim>\<open>id\<close>, or a falsy reference; \<open>NotFound\<close>
  when framing the reference yields a falsy result; \<open>Revoked\<close> when the result has a
  \<^verbatim>\<open>revoked\<close> property. When it fails with \<open>Revoked\<close>, \<^verbatim>\<open>verifyProof\<close> does not report
  \<^verbatim>\<open>verified\<close>, whatever the signature primitive and the purpose validator would say, and
  once the proof and the document have been canonicalized its result is
  \<^verbatim>\<open>{ verified: false, error: Revoked }\<close>.
\<close>

lemma verification_method_cases:
  "(p ''verificationMethod'' = None
      \<longrightarrow> getVerificationMethod this E p loader = Inl MissingReference)
   \<and> (p ''verificationMethod'' = Some (JObj m) \<and> m ''id'' = None
      \<longrightarrow> getVerificationMethod this E p loader = Inl MissingReference)
   \<and> (verificationMethodReference p = Inr ref \<and> falsy ref
      \<longrightarrow> getVerificationMethod this E p loader = Inl MissingReference)
   \<and> (verificationMethodReference p = Inr ref \<and> \<not> falsy ref
      \<and> jsonld_frame E ref
           (JObj [''@context'' \<mapsto> JStr (SECURITY_CONTEXT_URL E),
                  ''@embed'' \<mapsto> JStr ''@always'', ''id'' \<mapsto> ref])
           loader (Some False) (Some (SECURITY_CONTEXT_URL E)) = Inr result
      \<and> falsy result
      \<longrightarrow> getVerificationMethod this E p loader = Inl (NotFound ref))
   \<and> (verificationMethodReference p = Inr ref \<and> \<not> falsy ref
      \<and> jsonld_frame E ref
           (JObj [''@context'' \<mapsto> JStr (SECURITY_CONTEXT_URL E),
                  ''@embed'' \<mapsto> JStr ''@always'', ''id'' \<mapsto> ref])
           loader (Some False) (Some (SECURITY_CONTEXT_URL E)) = Inr result
      \<and> \<not> falsy result \<and> \<not> isUndefined (property result ''revoked'')
      \<longrightarrow> getVerificationMethod this E p loader = Inl Revoked)
   \<and> (getVerificationMethod this E (proof' options) (documentLoader options) = Inl Revoked
      \<longrightarrow> \<not> verified (verifyProof this E options))
   \<and> (getVerificationMethod this E (proof' options) (documentLoader options) = Inl Revoked
      \<and> createVerifyProofData this E (JObj (proof' options)) (documentLoader options)
          (expansionMap options) = Inr ps
      \<and> createVerifyProofData this E (document options) (documentLoader options)
          (expansionMap options) = Inr ds
      \<longrightarrow> verifyProof this E options = \<lparr>verified = False, error = Some Revoked\<rparr>)"
proof -
  have absent: "p ''verificationMethod'' = None
      \<longrightarrow> getVerificationMethod this E p loader = Inl MissingReference"
    by (simp add: getVerificationMethod_def verificationMethodReference_absent falsy_def)
  have noid: "p ''verificationMethod'' = Some (JObj m) \<and> m ''id'' = None
      \<longrightarrow> getVerificationMethod this E p loader = Inl MissingReference"
    by (simp add: getVerificationMethod_def verificationMethodReference_embedded falsy_def
        get_def)
  have rest: "getVerificationMethod this E (proof' options) (documentLoader options) = Inl Revoked
      \<longrightarrow> \<not> verified (verifyProof this E options)"
  proof
    assume "getVerificationMethod this E (proof' options) (documentLoader options) = Inl Revoked"
    then obtain e' where "verifyProof_try this E options = Inl e'"
      using getVerificationMethod_Inl_try by blast
    then show "\<not> verified (verifyProof this E options)"
      by (simp add: verifyProof_caught)
  qed
  show ?thesis
    using absent noid rest
    by (simp add: getVerificationMethod_def verifyProof_def verifyProof_try_def)
qed

text \<open>
  The instance with no reference, with an embedded method without \<^verbatim>\<open>id\<close>, with an empty
  reference, with a reference that loads as \<^verbatim>\<open>null\<close>, and with a revoked one.
\<close>

lemma verification_method_cases_example:
  "getVerificationMethod exampleSuite exampleEnv Map.empty exampleLoader = Inl MissingReference
   \<and> getVerificationMethod exampleSuite exampleEnv
       [''verificationMethod'' \<mapsto> JObj Map.empty] exampleLoader = Inl MissingReference
   \<and> getVerificationMethod exampleSuite exampleEnv
       (derivedProof (exampleDerived [])) exampleLoader = Inl MissingReference
   \<and> getVerificationMethod exampleSuite exampleEnv
       (derivedProof (exampleDerived ''did:example:489398593#gone'')) exampleLoader
     = Inl (NotFound (JStr ''did:example:489398593#gone''))
   \<and> \<not> verified (verifyProof exampleSuite exampleEnv
         (exampleVerifyOptions ''did:example:489398593#old'' True))
   \<and> verifyProof exampleSuite exampleEnv (exampleVerifyOptions ''did:example:489398593#old'' True)
     = \<lparr>verified = False, error = Some Revoked\<rparr>"
proof -
  let ?r = "''<urn:bnid:_:c14n0> <urn:ex:name> <urn:ex:bob> .''"
  let ?old = "''did:example:489398593#old''"
  let ?gone = "''did:example:489398593#gone''"
  let ?v = "exampleVerifyOptions ?old True"
  have a: "(Map.empty :: obj) ''verificationMethod'' = None"
    by simp
  from verification_method_cases [where p = Map.empty and this = exampleSuite
      and E = exampleEnv and loader = exampleLoader] a
  have 1: "getVerificationMethod exampleSuite exampleEnv Map.empty exampleLoader
           = Inl MissingReference"
    by blast
  let ?p = "[''verificationMethod'' \<mapsto> JObj Map.empty]"
  have b: "?p ''verificationMethod'' = Some (JObj Map.empty) \<and> (Map.empty :: obj) ''id'' = None"
    by simp
  from verification_method_cases [where p = ?p and m = Map.empty and this = exampleSuite
      and E = exampleEnv and loader = exampleLoader] b
  have 2: "getVerificationMethod exampleSuite exampleEnv ?p exampleLoader = Inl MissingReference"
    by blast
  have c: "verificationMethodReference (derivedProof (exampleDerived [])) = Inr (JStr [])
           \<and> falsy (JStr [])"
    by (simp add: example_reference falsy_def)
  from verification_method_cases [where p = "derivedProof (exampleDerived [])"
      and ref = "JStr []" and this = exampleSuite and E = exampleEnv and loader = exampleLoader] c
  have 3: "getVerificationMethod exampleSuite exampleEnv (derivedProof (exampleDerived []))
             exampleLoader = Inl MissingReference"
    by blast
  have g: "verificationMethodReference (derivedProof (exampleDerived ?gone)) = Inr (JStr ?gone)"
    "\<not> falsy (JStr ?gone)"
    "jsonld_frame exampleEnv (JStr ?gone)
       (JObj [''@context'' \<mapsto> JStr (SECURITY_CONTEXT_URL exampleEnv),
              ''@embed'' \<mapsto> JStr ''@always'', ''id'' \<mapsto> JStr ?gone])
       exampleLoader (Some False) (Some (SECURITY_CONTEXT_URL exampleEnv)) = Inr JNull"
    "falsy JNull"
    by (simp_all add: example_reference example_frame falsy_def exampleLoader_def)
  from verification_method_cases [where p = "derivedProof (exampleDerived ?gone)"
      and this = exampleSuite and E = exampleEnv and loader = exampleLoader
      and ref = "JStr ?gone" and result = JNull] g
  have 4: "getVerificationMethod exampleSuite exampleEnv
       (derivedProof (exampleDerived ?gone)) exampleLoader = Inl (NotFound (JStr ?gone))"
    by blast
  let ?doc = "JObj [''id'' \<mapsto> JStr ?old, ''revoked'' \<mapsto> JStr ''2020-05-01T00:00:00Z'']"
  have o: "verificationMethodReference (proof' ?v) = Inr (JStr ?old)"
    "\<not> falsy (JStr ?old)"
    "jsonld_frame exampleEnv (JStr ?old)
       (JObj [''@context'' \<mapsto> JStr (SECURITY_CONTEXT_URL exampleEnv),
              ''@embed'' \<mapsto> JStr ''@always'', ''id'' \<mapsto> JStr ?old])
       (documentLoader ?v) (Some False) (Some (SECURITY_CONTEXT_URL exampleEnv)) = Inr ?doc"
    "\<not> falsy ?doc"
    "\<not> isUndefined (property ?doc ''revoked'')"
    by (simp_all add: example_verify_options example_reference example_frame falsy_def
        exampleLoader_def property_def get_def isUndefined_def)
  have s: "createVerifyProofData exampleSuite exampleEnv (JObj (proof' ?v)) (documentLoader ?v)
             (expansionMap ?v) = Inr exampleProofStatements"
    "createVerifyProofData exampleSuite exampleEnv (document ?v) (documentLoader ?v)
             (expansionMap ?v) = Inr [?r]"
    by (simp_all add: example_verify_options example_verify_statements)
  note t = verification_method_cases [where p = "proof' ?v"
      and this = exampleSuite and E = exampleEnv and loader = "documentLoader ?v"
      and ref = "JStr ?old" and result = ?doc and options = ?v
      and ps = exampleProofStatements and ds = "[?r]"]
  from t o have rv: "getVerificationMethod exampleSuite exampleEnv (proof' ?v) (documentLoader ?v)
      = Inl Revoked"
    by blast
  with t have 5: "\<not> verified (verifyProof exampleSuite exampleEnv ?v)"
    by blast
  from rv t s have 6: "verifyProof exampleSuite exampleEnv ?v
      = \<lparr>verified = False, error = Some Revoked\<rparr>"
    by blast
  from 1 2 3 4 5 6 show ?thesis
    by simp
qed

text \<open>
  C7 fails for a proof whose \<^verbatim>\<open>verificationMethod\<close> is \<^verbatim>\<open>null\<close>. Such a proof has no reference,
  and \<^verbatim>\<open>null\<close> is falsy, which line 359 answers with \<open>MissingReference\<close>; but line 355 runs
  first, \<^verbatim>\<open>typeof null\<close> is \<^verbatim>\<open>"object"\<close>, and reading the \<^verbatim>\<open>id\<close> of \<^verbatim>\<open>null\<close> throws a
  \<^verbatim>\<open>TypeError\<close>. So \<^verbatim>\<open>getVerificationMethod\<close> fails with that error, not with
  \<open>MissingReference\<close>, and \<^verbatim>\<open>verifyProof\<close> reports it as the cause. A proof with no
  \<^verbatim>\<open>verificationMethod\<close> property at all does fail with \<open>MissingReference\<close>.
\<close>

theorem getVerificationMethod_null_reference:
  "falsy JNull
   \<and> getVerificationMethod this E (p(''verificationMethod'' := None)) loader
     = Inl MissingReference
   \<and> verificationMethodReference (p(''verificationMethod'' \<mapsto> JNull)) = Inl NullReference
   \<and> getVerificationMethod this E (p(''verificationMethod'' \<mapsto> JNull)) loader
     = Inl NullReference
   \<and> getVerificationMethod exampleSuite exampleEnv (proof' nullMethodOptions)
       (documentLoader nullMethodOptions) = Inl NullReference
   \<and> verifyProof exampleSuite exampleEnv nullMethodOptions
     = \<lparr>verified = False, error = Some NullReference\<rparr>"
proof -
  have a: "getVerificationMethod this E (p(''verificationMethod'' := None)) loader
           = Inl MissingReference"
    by (simp add: getVerificationMethod_def verificationMethodReference_absent falsy_def)
  have r: "verificationMethodReference (q(''verificationMethod'' \<mapsto> JNull)) = Inl NullReference"
    for q
    by (simp add: verificationMethodReference_def get_def typeof_object_def isNull_def)
  then have g: "getVerificationMethod s F (q(''verificationMethod'' \<mapsto> JNull)) l
                = Inl NullReference" for s F q l
    by (simp add: getVerificationMethod_def)
  have p: "proof' nullMethodOptions
           = (derivedProof (exampleDerived ''did:example:489398593#test''))
               (''verificationMethod'' \<mapsto> JNull)"
    by (simp add: nullMethodOptions_def)
  have n: "getVerificationMethod exampleSuite exampleEnv (proof' nullMethodOptions)
       (documentLoader nullMethodOptions) = Inl NullReference"
    by (simp only: p g)
  have "verifyProof_try exampleSuite exampleEnv nullMethodOptions = Inl NullReference"
    unfolding verifyProof_try_def
    by (simp only: null_method_statements n sum.case)
  then have "verifyProof exampleSuite exampleEnv nullMethodOptions
     = \<lparr>verified = False, error = Some NullReference\<rparr>"
    by (simp add: verifyProof_def)
  with a r g n show ?thesis
    by (simp add: falsy_def)
qed

text \<open>
  C8: when every step up to the signature primitive has succeeded and the purpose
  validator reports an invalid purpose, the result of \<^verbatim>\<open>verifyProof\<close> is
  \<^verbatim>\<open>{ verified: false, error }\<close> with the error of the validator, whatever the primitive
  answered; and the result has \<^verbatim>\<open>verified\<close> set exactly when every step succeeded, the
  primitive answered with \<^verbatim>\<open>verified\<close> set and the purpose was reported valid.
\<close>

theorem purpose_overrides:
  "(createVerifyProofData this E (JObj (proof' options)) (documentLoader options)
        (expansionMap options) = Inr ps
      \<and> createVerifyProofData this E (document options) (documentLoader options)
        (expansionMap options) = Inr ds
      \<and> getVerificationMethod this E (proof' options) (documentLoader options) = Inr vm
      \<and> bufferFromBase64 E (get (proof' options) ''proof'') = Inr bytes
      \<and> blsVerifyProof E bytes (publicKeyBuffer (key this))
          (get (proof' options) ''totalStatements'')
          (ps @ transformedDocumentStatements ds)
          (get (proof' options) ''nonce'')
          (get (proof' options) ''revealStatements'') = Inr r
      \<and> purpose options (proof' options) (document options) this vm
          (documentLoader options) (expansionMap options) = Inr v
      \<and> \<not> valid v
      \<longrightarrow> verifyProof this E options = \<lparr>verified = False, error = Some (purpose_error v)\<rparr>)
   \<and> verified (verifyProof this E options)
       = (\<exists>ps' ds' vm' bytes' r' v'.
            createVerifyProofData this E (JObj (proof' options)) (documentLoader options)
              (expansionMap options) = Inr ps'
          \<and> createVerifyProofData this E (document options) (documentLoader options)
              (expansionMap options) = Inr ds'
          \<and> getVerificationMethod this E (proof' options) (documentLoader options) = Inr vm'
          \<and> bufferFromBase64 E (get (proof' options) ''proof'') = Inr bytes'
          \<and> blsVerifyProof E bytes' (publicKeyBuffer (key this))
              (get (proof' options) ''totalStatements'')
              (ps' @ transformedDocumentStatements ds')
              (get (proof' options) ''nonce'')
              (get (proof' options) ''revealStatements'') = Inr r'
          \<and> verified r'
          \<and> purpose options (proof' options) (document options) this vm'
              (documentLoader options) (expansionMap options) = Inr v'
          \<and> valid v')"
  (is "?invalid \<and> ?lhs = ?rhs")
proof -
  have "?rhs" if ok: "?lhs"
  proof (cases "verifyProof_try this E options")
    case (Inl e)
    then show ?thesis
      using ok by (simp add: verifyProof_caught)
  next
    case (Inr r)
    then have "verified r"
      using ok by (simp add: verifyProof_returned)
    with verifyProof_try_Inr [OF Inr] show ?thesis
      by blast
  qed
  moreover have "?lhs" if "?rhs"
  proof -
    from that obtain ps' ds' vm' bytes' r' v' where
      "createVerifyProofData this E (JObj (proof' options)) (documentLoader options)
              (expansionMap options) = Inr ps'"
      "createVerifyProofData this E (document options) (documentLoader options)
              (expansionMap options) = Inr ds'"
      "getVerificationMethod this E (proof' options) (documentLoader options) = Inr vm'"
      "bufferFromBase64 E (get (proof' options) ''proof'') = Inr bytes'"
      "blsVerifyProof E bytes' (publicKeyBuffer (key this))
              (get (proof' options) ''totalStatements'')
              (ps' @ transformedDocumentStatements ds')
              (get (proof' options) ''nonce'')
              (get (proof' options) ''revealStatements'') = Inr r'"
      "verified r'"
      "purpose options (proof' options) (document options) this vm'
              (documentLoader options) (expansionMap options) = Inr v'"
      "valid v'"
      by blast
    then show ?thesis
      by (simp add: verifyProof_def verifyProof_try_def)
  qed
  ultimately have "?lhs = ?rhs"
    by blast
  moreover have "?invalid"
    by (simp add: verifyProof_def verifyProof_try_def)
  ultimately show ?thesis
    by blast
qed

text \<open>
  The instance with a purpose that is not allowed, the primitive accepting, and with one
  that is.
\<close>

theorem purpose_overrides_witness:
  "verifyProof exampleSuite exampleEnv (exampleVerifyOptions ''did:example:489398593#test'' False)
     = \<lparr>verified = False, error = Some (External (JStr ''purpose not allowed''))\<rparr>
   \<and> verifyProof exampleSuite exampleEnv (exampleVerifyOptions ''did:example:489398593#test'' True)
     = \<lparr>verified = True, error = None\<rparr>"
proof -
  let ?r = "''<urn:bnid:_:c14n0> <urn:ex:name> <urn:ex:bob> .''"
  let ?m = "''did:example:489398593#test''"
  let ?vm = "JObj [''id'' \<mapsto> JStr ?m, ''type'' \<mapsto> JStr ''Bls12381G2Key2020'']"
  let ?res = "\<lparr>verified = True, error = None\<rparr>"
  let ?v = "exampleVerifyOptions ?m False"
  have s: "createVerifyProofData exampleSuite exampleEnv (JObj (proof' ?v)) (documentLoader ?v)
             (expansionMap ?v) = Inr exampleProofStatements"
    "createVerifyProofData exampleSuite exampleEnv (document ?v) (documentLoader ?v)
             (expansionMap ?v) = Inr [?r]"
    "getVerificationMethod exampleSuite exampleEnv (proof' ?v) (documentLoader ?v) = Inr ?vm"
    "bufferFromBase64 exampleEnv (get (proof' ?v) ''proof'') = Inr (map of_char ''BwcH'')"
    by (simp_all add: example_verify_options example_verify_statements
        example_getVerificationMethod example_derived_proof example_bufferFromBase64)
  have b: "blsVerifyProof exampleEnv (map of_char ''BwcH'') (publicKeyBuffer (key exampleSuite))
           (get (proof' ?v) ''totalStatements'')
           (exampleProofStatements @ transformedDocumentStatements [?r])
           (get (proof' ?v) ''nonce'')
           (get (proof' ?v) ''revealStatements'') = Inr ?res"
    by (rule example_blsVerifyProof)
  have p: "purpose ?v (proof' ?v) (document ?v) exampleSuite ?vm (documentLoader ?v)
           (expansionMap ?v) = Inr (PurposeResult False (External (JStr ''purpose not allowed'')))"
    "\<not> valid (PurposeResult False (External (JStr ''purpose not allowed'')))"
    by (simp_all add: example_verify_options examplePurpose_def)
  from purpose_overrides [where this = exampleSuite and E = exampleEnv and options = ?v
      and ps = exampleProofStatements and ds = "[?r]" and vm = ?vm
      and bytes = "map of_char ''BwcH''" and r = ?res
      and v = "PurposeResult False (External (JStr ''purpose not allowed''))"] s b p
  have 1: "verifyProof exampleSuite exampleEnv ?v
     = \<lparr>verified = False, error = Some (External (JStr ''purpose not allowed''))\<rparr>"
    by simp
  have 2: "verifyProof exampleSuite exampleEnv (exampleVerifyOptions ?m True) = ?res"
    by (simp add: verifyProof_def verifyProof_try_def example_verify_options
        example_verify_statements example_getVerificationMethod example_derived_proof
        example_bufferFromBase64 example_blsVerifyProof examplePurpose_def)
  from 1 2 show ?thesis
    by simp
qed



section \<open>The round trip\<close>




end
